theory Spec2Isabelle
  imports Complex_Main
begin

section \<open>The durable store (edge\_node/db/manager.py)\<close>

text \<open>
  The two tables the upload pipeline uses. A table is the list of its rows; the primary
  key (\<open>event_id\<close> of \<open>events\<close>, \<open>upload_id\<close> of \<open>pending_uploads\<close>) is kept unique by
  \<open>insert_event\<close>, which fails on a duplicate as the database does. Timestamps are
  seconds, \<open>func.now()\<close> is the argument \<open>now\<close>. Status values are the strings the
  code writes.
\<close>

record Event =
  event_id :: string
  json :: string
  status :: string
  created_at :: nat
  updated_at :: nat

record PendingUpload =
  upload_id :: string
  event_id :: string
  filepath :: string
  attempts :: int
  last_attempt_ts :: "nat option"
  status :: string
  checksum :: "string option"
  final_url :: "string option"

record db =
  events :: "Event list"
  pending_uploads :: "PendingUpload list"

text \<open>
  Exceptions. \<open>HTTPError c\<close> is \<open>requests.exceptions.HTTPError\<close> with the status code of
  its response. The others carry the name of the Python exception; \<open>OtherError\<close> stands
  for any exception not named here (a transport failure, a timeout, a body that is not
  JSON). The uploader's handlers tell \<open>HTTPError\<close> from the rest and nothing more.
\<close>

datatype error =
    HTTPError int
  | ValueError
  | IntegrityError
  | OverflowError
  | AttributeError
  | FileNotFoundError
  | NotADirectoryError
  | IsADirectoryError
  | FileExistsError
  | OtherError

text \<open>\<open>get_pending_uploads\<close>: \<open>SELECT ... WHERE status = 'PENDING_UPLOAD' LIMIT limit\<close>.\<close>

definition get_pending_uploads :: "db \<Rightarrow> nat \<Rightarrow> PendingUpload list" where
  "get_pending_uploads d limit =
     take limit (filter (\<lambda>u. PendingUpload.status u = ''PENDING_UPLOAD'') (pending_uploads d))"

text \<open>
  \<open>insert_event\<close>: one transaction adding the event and its upload, both
  \<open>PENDING_UPLOAD\<close>, the upload id derived from the event id. \<open>json.dumps(event_data)\<close>
  is the argument \<open>doc\<close>. A primary key already present makes the commit fail and
  nothing is stored.
\<close>

definition insert_event :: "db \<Rightarrow> nat \<Rightarrow> string \<Rightarrow> string \<Rightarrow> string \<Rightarrow> error + (db \<times> string \<times> string)" where
  "insert_event d now eid doc local_clip_path =
     (let uid = ''upload-'' @ eid in
      if find (\<lambda>e. Event.event_id e = eid) (events d) = None
         \<and> find (\<lambda>u. upload_id u = uid) (pending_uploads d) = None
      then Inr (\<lparr>events = events d @
                    [\<lparr>Event.event_id = eid, json = doc, Event.status = ''PENDING_UPLOAD'',
                      created_at = now, updated_at = now\<rparr>],
                 pending_uploads = pending_uploads d @
                    [\<lparr>upload_id = uid, event_id = eid, filepath = local_clip_path,
                      attempts = 0, last_attempt_ts = None, status = ''PENDING_UPLOAD'',
                      checksum = None, final_url = None\<rparr>]\<rparr>,
                eid, uid)
      else Inl IntegrityError)"

text \<open>
  The keyword arguments of \<open>update_upload_status\<close>. For each column, \<open>None\<close> is "keyword
  not passed", \<open>Some None\<close> is "passed as Python \<open>None\<close>" (SQL \<open>NULL\<close>) and
  \<open>Some (Some v)\<close> is a value.
\<close>

record kwargs =
  kw_checksum :: "string option option"
  kw_final_url :: "string option option"
  kw_attempts :: "int option option"

definition no_kwargs :: kwargs where
  "no_kwargs = \<lparr>kw_checksum = None, kw_final_url = None, kw_attempts = None\<rparr>"

text \<open>
  An SQLite \<open>INTEGER\<close> is a signed 64-bit number. The driver converts the parameters of
  a statement before it runs it, and refuses a Python integer outside that range with
  \<open>OverflowError\<close>. \<open>attempts\<close> is the only integer parameter of the update.
\<close>

definition fits_int64 :: "int \<Rightarrow> bool" where
  "fits_int64 n = (- (2 ^ 63) \<le> n \<and> n < 2 ^ 63)"

definition attempts_bindable :: "kwargs \<Rightarrow> bool" where
  "attempts_bindable kw = (case kw_attempts kw of Some (Some n) \<Rightarrow> fits_int64 n | _ \<Rightarrow> True)"

text \<open>
  The \<open>SET\<close> clause of the \<open>UPDATE\<close>: \<open>status\<close>, \<open>last_attempt_ts = now()\<close> and the
  keyword columns.
\<close>

definition set_values :: "nat \<Rightarrow> string \<Rightarrow> kwargs \<Rightarrow> PendingUpload \<Rightarrow> PendingUpload" where
  "set_values now st kw u =
     u\<lparr>status := st,
       last_attempt_ts := Some now,
       checksum := (case kw_checksum kw of None \<Rightarrow> checksum u | Some v \<Rightarrow> v),
       final_url := (case kw_final_url kw of None \<Rightarrow> final_url u | Some v \<Rightarrow> v),
       attempts := (case kw_attempts kw of Some (Some n) \<Rightarrow> n | _ \<Rightarrow> attempts u)\<rparr>"

text \<open>
  \<open>update_upload_status\<close> (manager.py, lines 166-186). Binding the parameters comes
  first and fails for an \<open>attempts\<close> outside 64 bits, whether or not a row matches. The
  \<open>UPDATE\<close> is keyed by \<open>upload_id\<close> alone. The column \<open>attempts\<close> is declared
  \<open>Mapped[int]\<close>, hence \<open>NOT NULL\<close>: writing \<open>NULL\<close> into a row that exists raises
  \<open>IntegrityError\<close>. An exception leaves the \<open>with\<close> block without a commit, so the
  store stays as it was. For a final status the row is read back and the status copied
  into the event with the row's \<open>event_id\<close>, whose \<open>updated_at\<close> is refreshed
  (\<open>onupdate\<close>).
\<close>

definition update_upload_status :: "db \<Rightarrow> nat \<Rightarrow> string \<Rightarrow> string \<Rightarrow> kwargs \<Rightarrow> error + db" where
  "update_upload_status d now uid st kw =
     (if \<not> attempts_bindable kw then Inl OverflowError
      else if kw_attempts kw = Some None \<and> find (\<lambda>u. upload_id u = uid) (pending_uploads d) \<noteq> None
      then Inl IntegrityError
      else
        let ups = map (\<lambda>u. if upload_id u = uid then set_values now st kw u else u)
                      (pending_uploads d);
            evs = (if st = ''UPLOADED'' \<or> st = ''FAILED'' then
                     (case find (\<lambda>u. upload_id u = uid) ups of
                        None \<Rightarrow> events d
                      | Some upload \<Rightarrow>
                          map (\<lambda>e. if Event.event_id e = event_id upload
                                    then e\<lparr>Event.status := st, updated_at := now\<rparr> else e)
                              (events d))
                   else events d)
        in Inr \<lparr>events = evs, pending_uploads = ups\<rparr>)"

text \<open>
  The store once a call of \<open>update_upload_status\<close> is over, whether it returned or
  raised.
\<close>

definition store_after :: "db \<Rightarrow> error + db \<Rightarrow> db" where
  "store_after d r = (case r of Inl x \<Rightarrow> d | Inr d' \<Rightarrow> d')"

section \<open>The aggregator's status endpoint (edge\_node/services/vss\_aggregator.py)\<close>

record StatusUpdate =
  su_upload_id :: string
  su_status :: string
  su_final_url :: "string option"
  su_checksum :: "string option"
  su_attempts :: "int option"

text \<open>
  \<open>POST /events/mark_status\<close>. The body is validated first (status must be one of the
  three names, else 422); the handler passes all three optional fields on as keywords,
  \<open>None\<close> when the body omits them; any exception becomes a 500. The result is the HTTP
  status and the store.
\<close>

definition mark_event_status :: "db \<Rightarrow> nat \<Rightarrow> StatusUpdate \<Rightarrow> int \<times> db" where
  "mark_event_status d now upd =
     (if su_status upd \<noteq> ''PROCESSING'' \<and> su_status upd \<noteq> ''FAILED''
         \<and> su_status upd \<noteq> ''UPLOADED''
      then (422, d)
      else
        (case update_upload_status d now (su_upload_id upd) (su_status upd)
                \<lparr>kw_checksum = Some (su_checksum upd),
                 kw_final_url = Some (su_final_url upd),
                 kw_attempts = Some (su_attempts upd)\<rparr> of
           Inl e \<Rightarrow> (500, d)
         | Inr d' \<Rightarrow> (200, d')))"

text \<open>The row of an upload id, as \<open>session.get(PendingUpload, upload_id)\<close> returns it.\<close>

definition get_upload :: "db \<Rightarrow> string \<Rightarrow> PendingUpload option" where
  "get_upload d uid = find (\<lambda>u. upload_id u = uid) (pending_uploads d)"

definition get_event :: "db \<Rightarrow> string \<Rightarrow> Event option" where
  "get_event d eid = find (\<lambda>e. Event.event_id e = eid) (events d)"

section \<open>Paths (pathlib)\<close>

text \<open>
  \<open>Path(s)\<close> splits \<open>s\<close> at the slashes and drops the empty pieces and the pieces \<open>.\<close>;
  \<open>..\<close> is kept. \<open>Path.name\<close> is the last piece (empty when there is none) and
  \<open>Path.suffix\<close> starts at the last dot of the name when that dot is neither its first
  nor its last character.
\<close>

fun split_slash :: "string \<Rightarrow> string list" where
  "split_slash [] = [[]]"
| "split_slash (c # cs) =
     (if c = CHR ''/'' then [] # split_slash cs
      else (case split_slash cs of [] \<Rightarrow> [[c]] | p # ps \<Rightarrow> (c # p) # ps))"

definition path_parts :: "string \<Rightarrow> string list" where
  "path_parts s = filter (\<lambda>p. p \<noteq> [] \<and> p \<noteq> ''.'') (split_slash s)"

definition path_name :: "string \<Rightarrow> string" where
  "path_name s = (if path_parts s = [] then [] else last (path_parts s))"

definition path_suffix :: "string \<Rightarrow> string" where
  "path_suffix s =
     (let name = path_name s;
          tail = rev (takeWhile (\<lambda>c. c \<noteq> CHR ''.'') (rev name))
      in if CHR ''.'' \<in> set name \<and> tail \<noteq> [] \<and> length tail + 1 < length name
         then CHR ''.'' # tail else [])"

text \<open>\<open>str.lower()\<close> on ASCII: an upper-case letter gets bit 5 set.\<close>

fun lower_char :: "char \<Rightarrow> char" where
  "lower_char (Char b0 b1 b2 b3 b4 b5 b6 b7) =
     (let n = (of_char (Char b0 b1 b2 b3 b4 b5 b6 b7) :: nat)
      in if 65 \<le> n \<and> n \<le> 90 then Char b0 b1 b2 b3 b4 True b6 b7
         else Char b0 b1 b2 b3 b4 b5 b6 b7)"

definition lower :: "string \<Rightarrow> string" where
  "lower s = map lower_char s"

section \<open>The uploader (edge\_node/services/vss\_uploader.py)\<close>

text \<open>The options of the device configuration that the uploader reads.\<close>

record config =
  tenant_id :: string
  device_id :: string
  max_retries :: int
  retry_backoff_seconds :: int

text \<open>
  The requests the uploader sends, each with the fields the code puts into it:
  the presign \<open>POST\<close> (tenant, device, event id, file name, size, content type), the
  \<open>PUT\<close> (upload URL, \<open>Content-Type\<close> header, \<open>x-amz-checksum-sha256\<close> header) and the
  completion \<open>POST\<close> (upload id, event id, final URL, checksum).
\<close>

datatype net_call =
    Presign string string string string nat string
  | Put string string string
  | Complete string string string string

text \<open>
  Everything outside the process: the file system (does the clip exist; its digest and
  size, or the exception reading them raises; whether it opens for the \<open>PUT\<close>), the
  central server (the answer to each request: an exception, or the JSON object of the
  response as a dictionary of strings), the value of \<open>random.random()\<close>, the rounding of
  a real number to a double, and the clock.
\<close>

record env =
  file_exists :: "string \<Rightarrow> bool"
  file_sha256 :: "string \<Rightarrow> error + string"
  file_size :: "string \<Rightarrow> error + nat"
  file_open :: "string \<Rightarrow> error + unit"
  server :: "net_call \<Rightarrow> error + (string \<rightharpoonup> string)"
  random_random :: real
  float_round :: "real \<Rightarrow> real"
  time_now :: nat

text \<open>
  What one call of the uploader changes: the store, the requests sent so far and the
  durations slept so far.
\<close>

record world =
  store :: db
  calls :: "net_call list"
  sleeps :: "real list"

text \<open>The content type guessed for the presign request (line 95).\<close>

definition content_type :: "string \<Rightarrow> string" where
  "content_type p =
     (if lower (path_suffix p) = ''.mp4'' then ''video/mp4'' else ''application/octet-stream'')"

text \<open>Sending a request: it is recorded, and the server's answer is the result.\<close>

definition send :: "env \<Rightarrow> world \<Rightarrow> net_call \<Rightarrow> world \<times> (error + (string \<rightharpoonup> string))" where
  "send e w c = (w\<lparr>calls := calls w @ [c]\<rparr>, server e c)"

text \<open>
  \<open>_request_presigned_url\<close> (lines 89-116). The payload needs \<open>stat()\<close> of the file,
  which can raise before anything is sent.
\<close>

definition request_presigned_url ::
  "config \<Rightarrow> env \<Rightarrow> world \<Rightarrow> PendingUpload \<Rightarrow> world \<times> (error + (string \<rightharpoonup> string))" where
  "request_presigned_url cfg e w upload =
     (case file_size e (filepath upload) of
        Inl x \<Rightarrow> (w, Inl x)
      | Inr size_bytes \<Rightarrow>
          send e w (Presign (tenant_id cfg) (device_id cfg) (event_id upload)
                      (path_name (filepath upload)) size_bytes
                      (content_type (filepath upload))))"

text \<open>
  \<open>_upload_file\<close> (lines 118-135): the file is opened, then sent; the \<open>Content-Type\<close>
  header is the literal of the code.
\<close>

definition upload_file ::
  "env \<Rightarrow> world \<Rightarrow> string \<Rightarrow> string \<Rightarrow> string \<Rightarrow> world \<times> (error + (string \<rightharpoonup> string))" where
  "upload_file e w upload_url file_path cks =
     (case file_open e file_path of
        Inl x \<Rightarrow> (w, Inl x)
      | Inr f \<Rightarrow> send e w (Put upload_url ''video/mp4'' cks))"

text \<open>\<open>_complete_upload\<close> (lines 137-158): the payload takes \<open>upload.upload_id\<close>.\<close>

definition complete_upload ::
  "env \<Rightarrow> world \<Rightarrow> PendingUpload \<Rightarrow> string \<Rightarrow> string \<Rightarrow> world \<times> (error + (string \<rightharpoonup> string))" where
  "complete_upload e w upload furl cks =
     send e w (Complete (upload_id upload) (event_id upload) furl cks)"

text \<open>
  \<open>_post_metadata\<close> (lines 160-184). Line 167 reads \<open>self.db_manager.Event\<close>, and a
  \<open>DBManager\<close> has no attribute of that name (\<open>Event\<close> is a class of the module): the
  call raises \<open>AttributeError\<close> every time, before the metadata is built or any request
  is sent.
\<close>

definition post_metadata ::
  "env \<Rightarrow> world \<Rightarrow> PendingUpload \<Rightarrow> string \<Rightarrow> world \<times> (error + (string \<rightharpoonup> string))" where
  "post_metadata e w upload furl = (w, Inl AttributeError)"

text \<open>
  Python's conversion of an integer to a float, as \<open>int + float\<close> and \<open>float * int\<close>
  do it: \<open>OverflowError\<close> when the integer rounds to \<open>2^1024\<close> or beyond, else the
  nearest double. \<open>fl\<close> is the rounding function.
\<close>

definition int_to_float :: "(real \<Rightarrow> real) \<Rightarrow> int \<Rightarrow> error + real" where
  "int_to_float fl i =
     (if 2 ^ 1024 - 2 ^ 970 \<le> \<bar>i\<bar> then Inl OverflowError else Inr (fl (real_of_int i)))"

text \<open>
  The sleep of a retry (lines 245-247), for base \<open>B\<close>, attempt number \<open>n\<close> and the random
  number \<open>r\<close>: \<open>min(B * 2 ** (n - 1) + r * B, 3600)\<close> in Python's arithmetic. For
  \<open>n \<ge> 1\<close> the power and the product are exact integers; a negative exponent makes
  \<open>**\<close> a float. Every float operation rounds its exact result with \<open>fl\<close>, and a
  result beyond the doubles (an infinity) is any value \<open>fl\<close> gives it: the \<open>min\<close> with
  3600 and the sign are all that is used of it. (An exponent too large for the memory
  of the machine ends in \<open>MemoryError\<close> instead, which is not represented.)
\<close>

definition wait_time :: "(real \<Rightarrow> real) \<Rightarrow> int \<Rightarrow> int \<Rightarrow> real \<Rightarrow> error + real" where
  "wait_time fl B n r =
     (case int_to_float fl B of
        Inl x \<Rightarrow> Inl x
      | Inr Bf \<Rightarrow>
          if 0 \<le> n - 1 then
            (let backoff_time = B * 2 ^ nat (n - 1);
                 jitter = fl (r * Bf)
             in case int_to_float fl backoff_time of
                  Inl x \<Rightarrow> Inl x
                | Inr bf \<Rightarrow> Inr (min (fl (bf + jitter)) 3600))
          else
            (let backoff_time = fl (Bf * fl (1 / 2 ^ nat (1 - n)));
                 jitter = fl (r * Bf)
             in Inr (min (fl (backoff_time + jitter)) 3600)))"

text \<open>
  \<open>_handle_failure\<close> (lines 232-257). \<open>upload\<close> is the object read when the batch was
  fetched; \<open>time.sleep\<close> raises \<open>ValueError\<close> on a negative duration. The function is
  called from the \<open>except\<close> clauses, so what it raises leaves \<open>process_upload\<close>.
\<close>

definition handle_failure :: "config \<Rightarrow> env \<Rightarrow> world \<Rightarrow> PendingUpload \<Rightarrow> int \<Rightarrow> error + world" where
  "handle_failure cfg e w upload status_code =
     (let new_attempts = attempts upload + 1 in
      if new_attempts \<ge> max_retries cfg then
        (case update_upload_status (store w) (time_now e) (upload_id upload) ''FAILED''
                (no_kwargs\<lparr>kw_attempts := Some (Some new_attempts)\<rparr>) of
           Inl x \<Rightarrow> Inl x
         | Inr d \<Rightarrow> Inr (w\<lparr>store := d\<rparr>))
      else if status_code \<ge> 500 then
        (case wait_time (float_round e) (retry_backoff_seconds cfg) new_attempts
                (random_random e) of
           Inl x \<Rightarrow> Inl x
         | Inr t \<Rightarrow>
             if t < 0 then Inl ValueError
             else
               (case update_upload_status (store w) (time_now e) (upload_id upload)
                       ''PENDING_UPLOAD''
                       (no_kwargs\<lparr>kw_attempts := Some (Some new_attempts)\<rparr>) of
                  Inl x \<Rightarrow> Inl x
                | Inr d \<Rightarrow> Inr (w\<lparr>store := d, sleeps := sleeps w @ [t]\<rparr>)))
      else
        (case update_upload_status (store w) (time_now e) (upload_id upload) ''FAILED''
                (no_kwargs\<lparr>kw_attempts := Some (Some new_attempts)\<rparr>) of
           Inl x \<Rightarrow> Inl x
         | Inr d \<Rightarrow> Inr (w\<lparr>store := d\<rparr>)))"

text \<open>
  The body of the \<open>try\<close> of \<open>process_upload\<close> (lines 196-222): the world it reached and
  either the exception that ended it or nothing.
\<close>

definition try_body :: "config \<Rightarrow> env \<Rightarrow> world \<Rightarrow> PendingUpload \<Rightarrow> world \<times> (error + unit)" where
  "try_body cfg e w upload =
     (case file_sha256 e (filepath upload) of
        Inl x \<Rightarrow> (w, Inl x)
      | Inr cks \<Rightarrow>
     (case request_presigned_url cfg e w upload of
        (w1, Inl x) \<Rightarrow> (w1, Inl x)
      | (w1, Inr presigned_data) \<Rightarrow>
     (let upload_url = presigned_data ''upload_url'';
          final_url = presigned_data ''final_url'';
          uid = (case presigned_data ''upload_id'' of None \<Rightarrow> upload_id upload | Some s \<Rightarrow> s)
      in
     (case upload_url of None \<Rightarrow> (w1, Inl ValueError) | Some uurl \<Rightarrow>
     (case final_url of None \<Rightarrow> (w1, Inl ValueError) | Some furl \<Rightarrow>
      if uurl = [] \<or> furl = [] then (w1, Inl ValueError)
      else
     (case update_upload_status (store w1) (time_now e) uid ''PROCESSING''
             (no_kwargs\<lparr>kw_checksum := Some (Some cks)\<rparr>) of
        Inl x \<Rightarrow> (w1, Inl x)
      | Inr d2 \<Rightarrow>
     (case upload_file e (w1\<lparr>store := d2\<rparr>) uurl (filepath upload) cks of
        (w3, Inl x) \<Rightarrow> (w3, Inl x)
      | (w3, Inr r3) \<Rightarrow>
     (case complete_upload e w3 upload furl cks of
        (w4, Inl x) \<Rightarrow> (w4, Inl x)
      | (w4, Inr r4) \<Rightarrow>
     (case post_metadata e w4 upload furl of
        (w5, Inl x) \<Rightarrow> (w5, Inl x)
      | (w5, Inr r5) \<Rightarrow>
     (case update_upload_status (store w5) (time_now e) uid ''UPLOADED''
             (no_kwargs\<lparr>kw_final_url := Some (Some furl)\<rparr>) of
        Inl x \<Rightarrow> (w5, Inl x)
      | Inr d6 \<Rightarrow> (w5\<lparr>store := d6\<rparr>, Inr ())))))))))))"

text \<open>
  \<open>process_upload\<close> (lines 186-230): the missing-file exit, the \<open>try\<close>, and the two
  \<open>except\<close> clauses (an \<open>HTTPError\<close> is handled with its status code, anything else as
  500).
\<close>

definition process_upload :: "config \<Rightarrow> env \<Rightarrow> world \<Rightarrow> PendingUpload \<Rightarrow> error + world" where
  "process_upload cfg e w upload =
     (if \<not> file_exists e (filepath upload) then
        (case update_upload_status (store w) (time_now e) (upload_id upload) ''FAILED'' no_kwargs of
           Inl x \<Rightarrow> Inl x
         | Inr d \<Rightarrow> Inr (w\<lparr>store := d\<rparr>))
      else
        (case try_body cfg e w upload of
           (w', Inr u) \<Rightarrow> Inr w'
         | (w', Inl (HTTPError status_code)) \<Rightarrow> handle_failure cfg e w' upload status_code
         | (w', Inl x) \<Rightarrow> handle_failure cfg e w' upload 500))"

section \<open>The sync worker (edge\_node/services/vss\_sync.py)\<close>

text \<open>
  The file system: what is at each absolute path, a path being its list of names from
  the root. The root itself is a folder and has no entry.
\<close>

type_synonym bytes = "nat list"

datatype entry = File bytes | Folder

type_synonym filesystem = "string list \<rightharpoonup> entry"

definition is_folder :: "filesystem \<Rightarrow> string list \<Rightarrow> bool" where
  "is_folder fs p = (p = [] \<or> fs p = Some Folder)"

text \<open>
  The operating system following the names of a path from the folder \<open>cur\<close>: \<open>..\<close> goes
  up, any other name must be a folder.
\<close>

fun walk :: "filesystem \<Rightarrow> string list \<Rightarrow> string list \<Rightarrow> error + string list" where
  "walk fs cur [] = Inr cur"
| "walk fs cur (c # cs) =
     (if c = ''..'' then walk fs (butlast cur) cs
      else (case fs (cur @ [c]) of
              Some Folder \<Rightarrow> walk fs (cur @ [c]) cs
            | Some (File b) \<Rightarrow> Inl NotADirectoryError
            | None \<Rightarrow> Inl FileNotFoundError))"

text \<open>Where a path leads: its folder must exist, its last name need not.\<close>

definition resolve :: "filesystem \<Rightarrow> string list \<Rightarrow> error + string list" where
  "resolve fs names =
     (if names = [] then Inr []
      else (case walk fs [] (butlast names) of
              Inl x \<Rightarrow> Inl x
            | Inr dir \<Rightarrow> Inr (if last names = ''..'' then butlast dir else dir @ [last names])))"

text \<open>
  \<open>base / s\<close> of pathlib: a string that starts with a slash replaces the base.
\<close>

definition join_path :: "string list \<Rightarrow> string \<Rightarrow> string list" where
  "join_path base s =
     (case s of [] \<Rightarrow> base
      | c # cs \<Rightarrow> if c = CHR ''/'' then path_parts s else base @ path_parts s)"

definition model_storage_path :: "string list" where
  "model_storage_path = [''opt'', ''vss'', ''models'']"

text \<open>\<open>open(path, 'wb')\<close> and writing the bytes; \<open>Path.mkdir(exist_ok=True)\<close>; \<open>Path.unlink()\<close>.\<close>

definition open_wb :: "filesystem \<Rightarrow> string list \<Rightarrow> bytes \<Rightarrow> error + filesystem" where
  "open_wb fs names content =
     (case resolve fs names of
        Inl x \<Rightarrow> Inl x
      | Inr p \<Rightarrow> if is_folder fs p then Inl IsADirectoryError
                 else Inr (fs(p \<mapsto> File content)))"

definition mkdir_exist_ok :: "filesystem \<Rightarrow> string list \<Rightarrow> error + filesystem" where
  "mkdir_exist_ok fs names =
     (case resolve fs names of
        Inl x \<Rightarrow> Inl x
      | Inr p \<Rightarrow> if is_folder fs p then Inr fs
                 else (case fs p of
                         Some f \<Rightarrow> Inl FileExistsError
                       | None \<Rightarrow> Inr (fs(p \<mapsto> Folder))))"

definition unlink :: "filesystem \<Rightarrow> string list \<Rightarrow> error + filesystem" where
  "unlink fs names =
     (case resolve fs names of
        Inl x \<Rightarrow> Inl x
      | Inr p \<Rightarrow> if is_folder fs p then Inl IsADirectoryError
                 else (case fs p of
                         Some f \<Rightarrow> Inr (fs(p := None))
                       | None \<Rightarrow> Inl FileNotFoundError))"

text \<open>
  Extraction of an archive into the folder \<open>base\<close>. A member is a regular file: the
  names of its path below \<open>base\<close> and its bytes. The folders on the way are created; a
  file in the place of one of them, or a folder in the place of the member, stops the
  extraction with an exception.
\<close>

fun make_folders :: "filesystem \<Rightarrow> string list \<Rightarrow> string list \<Rightarrow> error + filesystem" where
  "make_folders fs cur [] = Inr fs"
| "make_folders fs cur (c # cs) =
     (case fs (cur @ [c]) of
        Some (File b) \<Rightarrow> Inl FileExistsError
      | Some Folder \<Rightarrow> make_folders fs (cur @ [c]) cs
      | None \<Rightarrow> make_folders (fs(cur @ [c] \<mapsto> Folder)) (cur @ [c]) cs)"

definition extract_member ::
  "filesystem \<Rightarrow> string list \<Rightarrow> string list \<times> bytes \<Rightarrow> error + filesystem" where
  "extract_member fs base m =
     (if fst m = [] then Inr fs
      else (case make_folders fs base (butlast (fst m)) of
              Inl x \<Rightarrow> Inl x
            | Inr fs1 \<Rightarrow> if fs1 (base @ fst m) = Some Folder then Inl IsADirectoryError
                         else Inr (fs1(base @ fst m \<mapsto> File (snd m)))))"

fun extract_all ::
  "filesystem \<Rightarrow> string list \<Rightarrow> (string list \<times> bytes) list \<Rightarrow> filesystem \<times> error option" where
  "extract_all fs base [] = (fs, None)"
| "extract_all fs base (m # ms) =
     (case extract_member fs base m of
        Inl x \<Rightarrow> (fs, Some x)
      | Inr fs1 \<Rightarrow> extract_all fs1 base ms)"

text \<open>
  What \<open>session.get(download_url, stream=True)\<close> and the copy loop do: the request
  fails (connection or status) before the staging file is opened; or the stream breaks
  after some bytes were written; or everything arrives.
\<close>

datatype download_result = RequestFailed | StreamFailed bytes | Downloaded bytes

text \<open>
  The outside of the sync worker: the download of a URL, SHA-256 as hex, the archive
  reader (the members it yields, in order, and whether it got to the end of the archive
  without an exception) and whether the reload request for a version succeeds.
\<close>

record sync_env =
  download :: "string \<Rightarrow> download_result"
  sha256_hex :: "bytes \<Rightarrow> string"
  untar :: "bytes \<Rightarrow> (string list \<times> bytes) list \<times> bool"
  reload_ok :: "string \<Rightarrow> bool"

text \<open>
  What a package install can change: the file system, the reload requests sent to the
  inference service (their \<open>new_version\<close> and whether they succeeded; a failure is
  logged and nothing else), and the store.
\<close>

record sync_state =
  files :: filesystem
  reload_calls :: "(string \<times> bool) list"
  sync_store :: db

text \<open>
  \<open>package.get(k)\<close> for the check \<open>all([...])\<close>: a missing key and an empty string are
  both falsy, so both read as the empty string here.
\<close>

definition get_str :: "(string \<rightharpoonup> string) \<Rightarrow> string \<Rightarrow> string" where
  "get_str package k = (case package k of None \<Rightarrow> [] | Some v \<Rightarrow> v)"

definition staging_path :: "string \<Rightarrow> string \<Rightarrow> string list" where
  "staging_path package_id version =
     join_path model_storage_path (package_id @ ''-'' @ version @ ''.tar.gz'')"

definition install_path :: "string \<Rightarrow> string list" where
  "install_path package_id = join_path model_storage_path package_id"

text \<open>
  \<open>_process_package\<close> (lines 97-169): the state it leaves and the exception that left
  it uncaught, if any. Only \<open>RequestException\<close> is caught around the download, so what
  \<open>open\<close> raises leaves the function; so does what \<open>mkdir\<close> and the two \<open>unlink\<close> raise.
  Signature verification is the logged placeholder of the code and does nothing. A
  failed extraction is caught and ends the install where it is.
\<close>

definition process_package ::
  "sync_env \<Rightarrow> sync_state \<Rightarrow> (string \<rightharpoonup> string) \<Rightarrow> sync_state \<times> error option" where
  "process_package e s package =
     (let package_id = get_str package ''id'';
          version = get_str package ''version'';
          download_url = get_str package ''download_url'';
          sha256 = get_str package ''sha256'';
          signature = get_str package ''signature''
      in
      if package_id = [] \<or> version = [] \<or> download_url = [] \<or> sha256 = [] \<or> signature = []
      then (s, None)
      else
        let local_path = staging_path package_id version in
        (case download e download_url of
           RequestFailed \<Rightarrow> (s, None)
         | StreamFailed part \<Rightarrow>
             (case open_wb (files s) local_path part of
                Inl x \<Rightarrow> (s, Some x)
              | Inr fs1 \<Rightarrow> (s\<lparr>files := fs1\<rparr>, None))
         | Downloaded content \<Rightarrow>
             (case open_wb (files s) local_path content of
                Inl x \<Rightarrow> (s, Some x)
              | Inr fs1 \<Rightarrow>
                if sha256_hex e content \<noteq> sha256
                then (case unlink fs1 local_path of
                        Inl x \<Rightarrow> (s\<lparr>files := fs1\<rparr>, Some x)
                      | Inr fs2 \<Rightarrow> (s\<lparr>files := fs2\<rparr>, None))
                else
                  (case mkdir_exist_ok fs1 (install_path package_id) of
                     Inl x \<Rightarrow> (s\<lparr>files := fs1\<rparr>, Some x)
                   | Inr fs2 \<Rightarrow>
                  (case resolve fs2 (install_path package_id) of
                     Inl x \<Rightarrow> (s\<lparr>files := fs2\<rparr>, Some x)
                   | Inr base \<Rightarrow>
                     let (members, complete) = untar e content;
                         (fs3, failed) = extract_all fs2 base members
                     in if failed \<noteq> None \<or> \<not> complete then (s\<lparr>files := fs3\<rparr>, None)
                        else
                          let s4 = s\<lparr>files := fs3,
                                     reload_calls := reload_calls s @ [(version, reload_ok e version)]\<rparr>
                          in (case unlink fs3 local_path of
                                Inl x \<Rightarrow> (s4, Some x)
                              | Inr fs5 \<Rightarrow> (s4\<lparr>files := fs5\<rparr>, None)))))))"

section \<open>Example data\<close>

text \<open>
  The event and upload of the integration test (tests/edge\_integration), as
  \<open>insert_event\<close> stores them, and the answers of its mock central server.
\<close>

definition test_db :: db where
  "test_db =
     \<lparr>events = [\<lparr>Event.event_id = ''evt-test-001'', json = ''{}'',
                 Event.status = ''PENDING_UPLOAD'', created_at = 0, updated_at = 0\<rparr>],
      pending_uploads = [\<lparr>upload_id = ''upload-evt-test-001'', event_id = ''evt-test-001'',
                          filepath = ''/tmp/test_clip.mp4'', attempts = 0,
                          last_attempt_ts = None, status = ''PENDING_UPLOAD'',
                          checksum = None, final_url = None\<rparr>]\<rparr>"

definition test_upload :: PendingUpload where
  "test_upload =
     \<lparr>upload_id = ''upload-evt-test-001'', event_id = ''evt-test-001'',
      filepath = ''/tmp/test_clip.mp4'', attempts = 0, last_attempt_ts = None,
      status = ''PENDING_UPLOAD'', checksum = None, final_url = None\<rparr>"

definition test_config :: config where
  "test_config = \<lparr>tenant_id = ''acme'', device_id = ''thor-mini-001'',
                   max_retries = 3, retry_backoff_seconds = 1\<rparr>"

definition test_world :: world where
  "test_world = \<lparr>store = test_db, calls = [], sleeps = []\<rparr>"

text \<open>
  A central server that accepts every request; its presign answer names the upload
  \<open>mock-upload-1\<close>, as \<open>upload_request\<close> of the mock server does.
\<close>

definition accepting_server :: "net_call \<Rightarrow> error + (string \<rightharpoonup> string)" where
  "accepting_server c =
     (case c of
        Presign t dv ev fn sz ct \<Rightarrow>
          Inr [''upload_id'' \<mapsto> ''mock-upload-1'',
               ''upload_url'' \<mapsto> ''http://localhost:5000/mock-upload/mock-upload-1'',
               ''final_url'' \<mapsto> ''https://cdn.example.com/clip'']
      | _ \<Rightarrow> Inr Map.empty)"

text \<open>A server whose presign answer has no \<open>final_url\<close>.\<close>

definition incomplete_server :: "net_call \<Rightarrow> error + (string \<rightharpoonup> string)" where
  "incomplete_server c =
     (case c of
        Presign t dv ev fn sz ct \<Rightarrow> Inr [''upload_url'' \<mapsto> ''http://localhost:5000/u'']
      | _ \<Rightarrow> Inr Map.empty)"

text \<open>
  The environment of the examples. Its random number is \<open>1/2\<close>. Its rounding is the
  identity: the numbers the examples compute with (small integers and their halves)
  are doubles, which rounding leaves as they are.
\<close>

definition test_env :: "(net_call \<Rightarrow> error + (string \<rightharpoonup> string)) \<Rightarrow> env" where
  "test_env srv =
     \<lparr>file_exists = (\<lambda>p. p = ''/tmp/test_clip.mp4'' \<or> p = ''/tmp/clip.bin''),
      file_sha256 = (\<lambda>p. Inr ''5a17''),
      file_size = (\<lambda>p. Inr 53),
      file_open = (\<lambda>p. Inr ()),
      server = srv,
      random_random = 1 / 2,
      float_round = (\<lambda>x. x),
      time_now = 100\<rparr>"

text \<open>A row that was uploaded, with its checksum and two failed attempts behind it.\<close>

definition done_db :: db where
  "done_db =
     \<lparr>events = [\<lparr>Event.event_id = ''evt-1'', json = ''{}'',
                 Event.status = ''UPLOADED'', created_at = 0, updated_at = 50\<rparr>],
      pending_uploads = [\<lparr>upload_id = ''upload-evt-1'', event_id = ''evt-1'',
                          filepath = ''/tmp/a.mp4'', attempts = 2,
                          last_attempt_ts = Some 50, status = ''UPLOADED'',
                          checksum = Some ''5a17'', final_url = Some ''https://cdn.example.com/a''\<rparr>]\<rparr>"

text \<open>
  A package manifest, a sync environment in which the download and the archive are
  good, and a file system that holds the model directory and nothing in it.
\<close>

definition test_package :: "string \<rightharpoonup> string" where
  "test_package =
     [''id'' \<mapsto> ''det'', ''version'' \<mapsto> ''v2'', ''download_url'' \<mapsto> ''http://c/det.tgz'',
      ''sha256'' \<mapsto> ''ab12'', ''signature'' \<mapsto> ''sig'']"

definition test_sync_env :: "string \<Rightarrow> bool \<Rightarrow> sync_env" where
  "test_sync_env digest reloads =
     \<lparr>download = (\<lambda>u. Downloaded [1, 2, 3]),
      sha256_hex = (\<lambda>b. digest),
      untar = (\<lambda>b. ([([''model.bin''], [9])], True)),
      reload_ok = (\<lambda>v. reloads)\<rparr>"

definition empty_state :: sync_state where
  "empty_state =
     \<lparr>files = [[''opt''] \<mapsto> Folder, [''opt'', ''vss''] \<mapsto> Folder,
               [''opt'', ''vss'', ''models''] \<mapsto> Folder],
      reload_calls = [], sync_store = test_db\<rparr>"

section \<open>Properties of the store\<close>

lemma find_None_map_if:
  "find (\<lambda>u. upload_id u = uid) us = None \<Longrightarrow>
   map (\<lambda>u. if upload_id u = uid then f u else u) us = us"
  by (induction us) (auto split: if_splits)

lemma update_upload_status_rows:
  "update_upload_status d now uid st kw = Inr d' \<Longrightarrow>
   pending_uploads d' =
     map (\<lambda>u. if upload_id u = uid then set_values now st kw u else u) (pending_uploads d)"
  by (auto simp: update_upload_status_def Let_def split: if_splits)

lemma update_upload_status_bindable:
  "update_upload_status d now uid st kw = Inr d' \<Longrightarrow> attempts_bindable kw"
  by (auto simp: update_upload_status_def Let_def split: if_splits)

lemma update_upload_status_returns:
  "attempts_bindable kw \<Longrightarrow> kw_attempts kw \<noteq> Some None \<Longrightarrow>
   \<exists>d'. update_upload_status d now uid st kw = Inr d'"
  by (simp add: update_upload_status_def Let_def)

lemma update_upload_status_events_kept:
  "update_upload_status d now uid st kw = Inr d' \<Longrightarrow> st \<noteq> ''UPLOADED'' \<Longrightarrow> st \<noteq> ''FAILED'' \<Longrightarrow>
   events d' = events d"
  by (auto simp: update_upload_status_def Let_def split: if_splits)

lemma upload_id_set_values [simp]: "upload_id (set_values now st kw u) = upload_id u"
  by (simp add: set_values_def)

lemma find_map_set_values:
  "find (\<lambda>u. upload_id u = uid) (map (\<lambda>u. if upload_id u = uid then set_values now st kw u else u) us)
   = map_option (set_values now st kw) (find (\<lambda>u. upload_id u = uid) us)"
  by (induction us) auto

lemma get_upload_after_update:
  "update_upload_status d now uid st kw = Inr d' \<Longrightarrow>
   get_upload d' uid = map_option (set_values now st kw) (get_upload d uid)"
  by (simp add: get_upload_def update_upload_status_rows find_map_set_values)

lemma update_upload_status_no_row:
  "find (\<lambda>u. upload_id u = uid) (pending_uploads d) = None \<Longrightarrow>
   update_upload_status d now uid st kw = (if attempts_bindable kw then Inr d else Inl OverflowError)"
  by (simp add: update_upload_status_def Let_def find_None_map_if)

lemma mark_event_status_200:
  "mark_event_status d now upd = (200, d') \<Longrightarrow>
   update_upload_status d now (su_upload_id upd) (su_status upd)
      \<lparr>kw_checksum = Some (su_checksum upd), kw_final_url = Some (su_final_url upd),
       kw_attempts = Some (su_attempts upd)\<rparr> = Inr d'"
  by (auto simp: mark_event_status_def split: if_splits sum.splits)

lemma mark_event_status_not_200:
  "mark_event_status d now upd = (code, d') \<Longrightarrow> code \<noteq> 200 \<Longrightarrow> d' = d"
  by (auto simp: mark_event_status_def split: if_splits sum.splits)

lemmas example_defs = test_db_def test_upload_def test_config_def test_world_def
  accepting_server_def incomplete_server_def test_env_def done_db_def

lemmas uploader_defs = process_upload_def try_body_def handle_failure_def
  request_presigned_url_def upload_file_def complete_upload_def post_metadata_def send_def
  update_upload_status_def set_values_def no_kwargs_def get_event_def content_type_def
  path_suffix_def path_name_def path_parts_def lower_def wait_time_def int_to_float_def
  attempts_bindable_def fits_int64_def

text \<open>
  The example rows are what the code stores: \<open>insert_event\<close> on an empty store gives
  \<open>test_db\<close>, the uploader's query returns \<open>test_upload\<close>, and a second insert of the
  same event is refused.
\<close>

lemma test_data_from_insert_event:
  "insert_event \<lparr>events = [], pending_uploads = []\<rparr> 0 ''evt-test-001'' ''{}'' ''/tmp/test_clip.mp4''
     = Inr (test_db, ''evt-test-001'', ''upload-evt-test-001'')"
  "get_pending_uploads test_db 1 = [test_upload]"
  "insert_event test_db 5 ''evt-test-001'' ''{}'' ''/tmp/other.mp4'' = Inl IntegrityError"
  by (simp_all add: insert_event_def get_pending_uploads_def test_db_def test_upload_def Let_def)

text \<open>
  C2, as the claim states it, fails: a row that is \<open>UPLOADED\<close> is moved to
  \<open>PROCESSING\<close> by the update, which compares nothing but the upload id.
\<close>

theorem processing_overwrites_uploaded:
  "map_option PendingUpload.status (get_upload done_db ''upload-evt-1'') = Some ''UPLOADED'' \<and>
   update_upload_status done_db 60 ''upload-evt-1'' ''PROCESSING'' no_kwargs =
     Inr \<lparr>events = [\<lparr>Event.event_id = ''evt-1'', json = ''{}'',
                       Event.status = ''UPLOADED'', created_at = 0, updated_at = 50\<rparr>],
          pending_uploads = [\<lparr>upload_id = ''upload-evt-1'', event_id = ''evt-1'',
                          filepath = ''/tmp/a.mp4'', attempts = 2,
                          last_attempt_ts = Some 60, status = ''PROCESSING'',
                          checksum = Some ''5a17'', final_url = Some ''https://cdn.example.com/a''\<rparr>]\<rparr>"
  by (simp add: done_db_def get_upload_def update_upload_status_def set_values_def no_kwargs_def
        attempts_bindable_def)

text \<open>
  C2, amended. The move to \<open>PROCESSING\<close> is an unconditional update keyed by
  \<open>upload_id\<close> alone. When the \<open>attempts\<close> keyword is absent or an integer of the signed
  64-bit range (the uploader's own \<open>PROCESSING\<close> update passes none), the call returns;
  afterwards every row of that upload id has status \<open>PROCESSING\<close>, whatever status it
  had, every row of another upload id is exactly as it was, and no event has changed.
\<close>

theorem processing_update_is_unconditional:
  assumes "kw_attempts kw = None \<or> (\<exists>n. kw_attempts kw = Some (Some n) \<and> fits_int64 n)"
  shows "\<exists>d'. update_upload_status d now uid ''PROCESSING'' kw = Inr d' \<and>
              events d' = events d \<and>
              list_all2 (\<lambda>u u'. if upload_id u = uid
                                 then upload_id u' = uid \<and> PendingUpload.status u' = ''PROCESSING''
                                 else u' = u)
                (pending_uploads d) (pending_uploads d')"
proof -
  have b: "attempts_bindable kw" and n: "kw_attempts kw \<noteq> Some None"
    using assms by (auto simp: attempts_bindable_def)
  obtain d' where d': "update_upload_status d now uid ''PROCESSING'' kw = Inr d'"
    using update_upload_status_returns [OF b n] by blast
  have ev: "events d' = events d"
    using update_upload_status_events_kept [OF d'] by simp
  have "list_all2 (\<lambda>u u'. if upload_id u = uid
                                 then upload_id u' = uid \<and> PendingUpload.status u' = ''PROCESSING''
                                 else u' = u)
          (pending_uploads d) (pending_uploads d')"
    unfolding update_upload_status_rows [OF d']
    by (simp add: list_all2_conv_all_nth set_values_def)
  with d' ev show ?thesis by blast
qed

theorem processing_update_is_unconditional_witness:
  "kw_attempts no_kwargs = None \<and>
   (\<exists>d'. update_upload_status done_db 60 ''upload-evt-1'' ''PROCESSING'' no_kwargs = Inr d' \<and>
         events d' = events done_db \<and>
         list_all2 (\<lambda>u u'. if upload_id u = ''upload-evt-1''
                            then upload_id u' = ''upload-evt-1'' \<and> PendingUpload.status u' = ''PROCESSING''
                            else u' = u)
           (pending_uploads done_db) (pending_uploads d'))"
proof -
  have a: "kw_attempts no_kwargs = None" by (simp add: no_kwargs_def)
  then have h: "kw_attempts no_kwargs = None \<or> (\<exists>n. kw_attempts no_kwargs = Some (Some n) \<and> fits_int64 n)"
    by simp
  show ?thesis
    using a processing_update_is_unconditional [OF h, of done_db 60 "''upload-evt-1''"] by blast
qed

text \<open>
  C3, as the claim states it, fails: a \<open>mark_status\<close> request that leaves \<open>checksum\<close>
  out writes null over the checksum the row had.
\<close>

theorem mark_status_clears_checksum:
  "map_option checksum (get_upload done_db ''upload-evt-1'') = Some (Some ''5a17'') \<and>
   mark_event_status done_db 60
      \<lparr>su_upload_id = ''upload-evt-1'', su_status = ''UPLOADED'',
       su_final_url = Some ''https://cdn.example.com/a'', su_checksum = None, su_attempts = Some 2\<rparr> =
     (200,
      \<lparr>events = [\<lparr>Event.event_id = ''evt-1'', json = ''{}'',
                       Event.status = ''UPLOADED'', created_at = 0, updated_at = 60\<rparr>],
          pending_uploads = [\<lparr>upload_id = ''upload-evt-1'', event_id = ''evt-1'',
                          filepath = ''/tmp/a.mp4'', attempts = 2,
                          last_attempt_ts = Some 60, status = ''UPLOADED'',
                          checksum = None, final_url = Some ''https://cdn.example.com/a''\<rparr>]\<rparr>)"
  by (simp add: done_db_def get_upload_def mark_event_status_def update_upload_status_def
        set_values_def attempts_bindable_def fits_int64_def)

text \<open>
  C3, amended. The checksum of a row changes only through an update that carries a
  checksum. A call of \<open>update_upload_status\<close> without a \<open>checksum\<close> keyword (the
  uploader's \<open>FAILED\<close>, \<open>PENDING_UPLOAD\<close> and \<open>UPLOADED\<close> updates) leaves the checksum
  of every row as it was, whether it returns or raises. A call with the keyword that
  returns (the uploader's \<open>PROCESSING\<close> update) gives the rows of that upload id the
  checksum passed, whatever they held, and leaves the checksum of every other row; it
  returns whenever \<open>attempts\<close> is absent or an integer of the signed 64-bit range. A
  \<open>mark_status\<close> request that carries a checksum and is answered 200 does the same with
  its checksum, and it is answered 200 when its status is one of the three names and it
  carries an \<open>attempts\<close> of that range; a request answered otherwise changes nothing.
\<close>

theorem checksum_changes_only_by_keyword:
  "(kw_checksum kw = None \<longrightarrow>
      map checksum (pending_uploads (store_after d (update_upload_status d now uid st kw)))
        = map checksum (pending_uploads d)) \<and>
   (\<forall>v d'. kw_checksum kw = Some v \<and> update_upload_status d now uid st kw = Inr d' \<longrightarrow>
      map checksum (pending_uploads d') =
        map (\<lambda>u. if upload_id u = uid then v else checksum u) (pending_uploads d)) \<and>
   (kw_attempts kw = None \<or> (\<exists>n. kw_attempts kw = Some (Some n) \<and> fits_int64 n) \<longrightarrow>
      (\<exists>d'. update_upload_status d now uid st kw = Inr d')) \<and>
   (\<forall>c d'. su_checksum upd = Some c \<and> mark_event_status d now upd = (200, d') \<longrightarrow>
      map checksum (pending_uploads d') =
        map (\<lambda>u. if upload_id u = su_upload_id upd then Some c else checksum u) (pending_uploads d)) \<and>
   (\<forall>n. (su_status upd = ''PROCESSING'' \<or> su_status upd = ''FAILED'' \<or> su_status upd = ''UPLOADED'')
        \<and> su_attempts upd = Some n \<and> fits_int64 n \<longrightarrow>
      fst (mark_event_status d now upd) = 200) \<and>
   (\<forall>code d'. mark_event_status d now upd = (code, d') \<and> code \<noteq> 200 \<longrightarrow> d' = d)"
proof (intro conjI allI impI)
  assume k: "kw_checksum kw = None"
  show "map checksum (pending_uploads (store_after d (update_upload_status d now uid st kw)))
        = map checksum (pending_uploads d)"
  proof (cases "update_upload_status d now uid st kw")
    case (Inl x)
    then show ?thesis by (simp add: store_after_def)
  next
    case (Inr d')
    show ?thesis
      using update_upload_status_rows [OF Inr] k Inr
      by (auto simp: store_after_def set_values_def)
  qed
next
  fix v d'
  assume "kw_checksum kw = Some v \<and> update_upload_status d now uid st kw = Inr d'"
  then show "map checksum (pending_uploads d') =
        map (\<lambda>u. if upload_id u = uid then v else checksum u) (pending_uploads d)"
    using update_upload_status_rows [of d now uid st kw d']
    by (auto simp: set_values_def)
next
  assume "kw_attempts kw = None \<or> (\<exists>n. kw_attempts kw = Some (Some n) \<and> fits_int64 n)"
  then have "attempts_bindable kw" "kw_attempts kw \<noteq> Some None"
    by (auto simp: attempts_bindable_def)
  then show "\<exists>d'. update_upload_status d now uid st kw = Inr d'"
    by (rule update_upload_status_returns)
next
  fix c d'
  assume a: "su_checksum upd = Some c \<and> mark_event_status d now upd = (200, d')"
  then have u: "update_upload_status d now (su_upload_id upd) (su_status upd)
      \<lparr>kw_checksum = Some (su_checksum upd), kw_final_url = Some (su_final_url upd),
       kw_attempts = Some (su_attempts upd)\<rparr> = Inr d'"
    using mark_event_status_200 by blast
  show "map checksum (pending_uploads d') =
        map (\<lambda>u. if upload_id u = su_upload_id upd then Some c else checksum u) (pending_uploads d)"
    using update_upload_status_rows [OF u] a by (auto simp: set_values_def)
next
  fix n
  assume a: "(su_status upd = ''PROCESSING'' \<or> su_status upd = ''FAILED'' \<or> su_status upd = ''UPLOADED'')
        \<and> su_attempts upd = Some n \<and> fits_int64 n"
  let ?kw = "\<lparr>kw_checksum = Some (su_checksum upd), kw_final_url = Some (su_final_url upd),
       kw_attempts = Some (su_attempts upd)\<rparr>"
  have "attempts_bindable ?kw" "kw_attempts ?kw \<noteq> Some None"
    using a by (simp_all add: attempts_bindable_def)
  then obtain d' where "update_upload_status d now (su_upload_id upd) (su_status upd) ?kw = Inr d'"
    using update_upload_status_returns by blast
  then show "fst (mark_event_status d now upd) = 200"
    using a by (auto simp: mark_event_status_def)
next
  fix code d'
  assume "mark_event_status d now upd = (code, d') \<and> code \<noteq> 200"
  then show "d' = d" using mark_event_status_not_200 by blast
qed

theorem checksum_changes_only_by_keyword_witness:
  "kw_checksum (no_kwargs\<lparr>kw_attempts := Some (Some 3)\<rparr>) = None \<and>
   map checksum (pending_uploads (store_after done_db
       (update_upload_status done_db 60 ''upload-evt-1'' ''FAILED''
          (no_kwargs\<lparr>kw_attempts := Some (Some 3)\<rparr>)))) = [Some ''5a17''] \<and>
   update_upload_status done_db 60 ''upload-evt-1'' ''FAILED''
      (no_kwargs\<lparr>kw_attempts := Some (Some 3)\<rparr>) =
     Inr \<lparr>events = [\<lparr>Event.event_id = ''evt-1'', json = ''{}'',
                       Event.status = ''FAILED'', created_at = 0, updated_at = 60\<rparr>],
          pending_uploads = [\<lparr>upload_id = ''upload-evt-1'', event_id = ''evt-1'',
                          filepath = ''/tmp/a.mp4'', attempts = 3,
                          last_attempt_ts = Some 60, status = ''FAILED'',
                          checksum = Some ''5a17'', final_url = Some ''https://cdn.example.com/a''\<rparr>]\<rparr>"
proof -
  have k: "kw_checksum (no_kwargs\<lparr>kw_attempts := Some (Some 3)\<rparr>) = None"
    by (simp add: no_kwargs_def)
  have r: "update_upload_status done_db 60 ''upload-evt-1'' ''FAILED''
      (no_kwargs\<lparr>kw_attempts := Some (Some 3)\<rparr>) =
     Inr \<lparr>events = [\<lparr>Event.event_id = ''evt-1'', json = ''{}'',
                       Event.status = ''FAILED'', created_at = 0, updated_at = 60\<rparr>],
          pending_uploads = [\<lparr>upload_id = ''upload-evt-1'', event_id = ''evt-1'',
                          filepath = ''/tmp/a.mp4'', attempts = 3,
                          last_attempt_ts = Some 60, status = ''FAILED'',
                          checksum = Some ''5a17'', final_url = Some ''https://cdn.example.com/a''\<rparr>]\<rparr>"
    by (simp add: done_db_def update_upload_status_def set_values_def no_kwargs_def
          attempts_bindable_def fits_int64_def)
  have c: "map checksum (pending_uploads done_db) = [Some ''5a17'']"
    by (simp add: done_db_def)
  have "map checksum (pending_uploads (store_after done_db
       (update_upload_status done_db 60 ''upload-evt-1'' ''FAILED''
          (no_kwargs\<lparr>kw_attempts := Some (Some 3)\<rparr>)))) = map checksum (pending_uploads done_db)"
    using checksum_changes_only_by_keyword
      [of "no_kwargs\<lparr>kw_attempts := Some (Some 3)\<rparr>" done_db 60 "''upload-evt-1''" "''FAILED''"] k
    by blast
  with k r c show ?thesis by simp
qed

text \<open>
  C10, as the claim states it, fails: with an \<open>attempts\<close> outside 64 bits the call
  raises \<open>OverflowError\<close> although no row has the upload id.
\<close>

theorem unknown_id_can_raise:
  "get_upload test_db ''upload-evt-9'' = None \<and>
   update_upload_status test_db 7 ''upload-evt-9'' ''FAILED''
      (no_kwargs\<lparr>kw_attempts := Some (Some (2 ^ 63))\<rparr>) = Inl OverflowError"
  by (simp add: get_upload_def test_db_def update_upload_status_def no_kwargs_def
        attempts_bindable_def fits_int64_def)

text \<open>
  C10, amended. \<open>update_upload_status\<close> called with an upload id that no row of
  \<open>pending_uploads\<close> has leaves both tables entirely unchanged: no row is created and
  no event takes the status. It returns normally, whatever the status and the other
  keywords, when \<open>attempts\<close> is absent, null or an integer of the signed 64-bit range,
  and raises \<open>OverflowError\<close> when \<open>attempts\<close> is an integer outside that range.
\<close>

theorem update_upload_status_unknown_id:
  assumes "find (\<lambda>u. upload_id u = uid) (pending_uploads d) = None"
  shows "update_upload_status d now uid st kw =
           (if attempts_bindable kw then Inr d else Inl OverflowError) \<and>
         store_after d (update_upload_status d now uid st kw) = d"
proof -
  have rows: "map (\<lambda>u. if upload_id u = uid then set_values now st kw u else u)
                (pending_uploads d) = pending_uploads d"
    using assms by (rule find_None_map_if)
  have "update_upload_status d now uid st kw =
           (if attempts_bindable kw then Inr d else Inl OverflowError)"
    using assms by (simp add: update_upload_status_def Let_def rows)
  then show ?thesis by (simp add: store_after_def)
qed

theorem update_upload_status_unknown_id_witness:
  "find (\<lambda>u. upload_id u = ''upload-evt-9'') (pending_uploads test_db) = None \<and>
   attempts_bindable (no_kwargs\<lparr>kw_attempts := Some None\<rparr>) \<and>
   update_upload_status test_db 7 ''upload-evt-9'' ''FAILED''
       (no_kwargs\<lparr>kw_attempts := Some None\<rparr>) = Inr test_db \<and>
   store_after test_db (update_upload_status test_db 7 ''upload-evt-9'' ''FAILED''
       (no_kwargs\<lparr>kw_attempts := Some None\<rparr>)) = test_db"
proof -
  have h: "find (\<lambda>u. upload_id u = ''upload-evt-9'') (pending_uploads test_db) = None"
    by (simp add: test_db_def)
  have b: "attempts_bindable (no_kwargs\<lparr>kw_attempts := Some None\<rparr>)"
    by (simp add: attempts_bindable_def)
  show ?thesis
    using h b update_upload_status_unknown_id
      [OF h, of 7 "''FAILED''" "no_kwargs\<lparr>kw_attempts := Some None\<rparr>"]
    by (simp add: store_after_def)
qed

section \<open>Properties of the uploader\<close>

text \<open>The path functions on some names, as pathlib answers.\<close>

lemma path_examples:
  "path_parts ''/tmp/clip.mp4/'' = [''tmp'', ''clip.mp4'']"
  "path_name ''/tmp/clip.mp4/'' = ''clip.mp4''"
  "path_name ''/tmp/./v1.2//clip.MP4'' = ''clip.MP4''"
  "path_name ''/'' = []"
  "path_suffix ''/tmp/test_clip.mp4'' = ''.mp4''"
  "path_suffix ''/var/clips/a.tar.gz'' = ''.gz''"
  "path_suffix ''/home/u/.bashrc'' = []"
  "path_suffix ''/tmp/clip.'' = []"
  "path_suffix ''/tmp/v1.2/clip'' = []"
  "lower ''.MP4'' = ''.mp4''"
  "content_type ''/tmp/v1.2/clip.MP4'' = ''video/mp4''"
  "content_type ''/tmp/clip.mp4/'' = ''video/mp4''"
  "content_type ''/tmp/clip.mp4.part'' = ''application/octet-stream''"
  by (simp_all add: path_suffix_def path_name_def path_parts_def lower_def content_type_def)

lemma send_keeps:
  "send e w c = (w', r) \<Longrightarrow> store w' = store w \<and> sleeps w' = sleeps w"
  by (auto simp: send_def)

lemma request_presigned_url_keeps:
  "request_presigned_url cfg e w upload = (w', r) \<Longrightarrow> store w' = store w \<and> sleeps w' = sleeps w"
  by (auto simp: request_presigned_url_def split: sum.splits dest: send_keeps)










text \<open>The backoff computation where it does not overflow.\<close>

lemma wait_time_value:
  assumes "0 \<le> B" and "1 \<le> n" and "B * 2 ^ nat (n - 1) < 2 ^ 1024 - 2 ^ 970"
  shows "wait_time fl B n r =
           Inr (min (fl (fl (real_of_int (B * 2 ^ nat (n - 1))) + fl (r * fl (real_of_int B)))) 3600)"
proof -
  have p: "(1::int) \<le> 2 ^ nat (n - 1)" by simp
  have "B * 1 \<le> B * 2 ^ nat (n - 1)" using p assms(1) by (rule mult_left_mono)
  then have le: "B \<le> B * 2 ^ nat (n - 1)" by simp
  have nn: "0 \<le> B * 2 ^ nat (n - 1)" using assms(1) by simp
  have b1: "\<not> (2 ^ 1024 - 2 ^ 970 \<le> \<bar>B\<bar>)" using assms(1) assms(3) le by linarith
  have b2: "\<not> (2 ^ 1024 - 2 ^ 970 \<le> \<bar>B * 2 ^ nat (n - 1)\<bar>)"
    using nn assms(3) by linarith
  have i1: "int_to_float fl B = Inr (fl (real_of_int B))"
    using b1 unfolding int_to_float_def by (simp only: if_False)
  have i2: "int_to_float fl (B * 2 ^ nat (n - 1)) = Inr (fl (real_of_int (B * 2 ^ nat (n - 1))))"
    using b2 unfolding int_to_float_def by (simp only: if_False)
  have k: "0 \<le> n - 1" using assms(2) by simp
  show ?thesis
    unfolding wait_time_def Let_def i1 i2 using k by (simp only: sum.case if_True)
qed

lemma wait_time_nonneg:
  assumes "0 \<le> B" and "1 \<le> n" and "B * 2 ^ nat (n - 1) < 2 ^ 1024 - 2 ^ 970"
      and "0 \<le> r" and "mono fl" and "fl 0 = 0"
  shows "\<exists>t. wait_time fl B n r = Inr t \<and> 0 \<le> t"
proof -
  have fB: "0 \<le> fl (real_of_int B)"
    using monoD [OF assms(5), of 0 "real_of_int B"] assms(1) assms(6) by simp
  have j: "0 \<le> fl (r * fl (real_of_int B))"
    using monoD [OF assms(5), of 0 "r * fl (real_of_int B)"] assms(4) fB assms(6) by simp
  have bf: "0 \<le> fl (real_of_int (B * 2 ^ nat (n - 1)))"
    using monoD [OF assms(5), of 0 "real_of_int (B * 2 ^ nat (n - 1))"] assms(1) assms(6) by simp
  have s: "0 \<le> fl (fl (real_of_int (B * 2 ^ nat (n - 1))) + fl (r * fl (real_of_int B)))"
    using monoD [OF assms(5), of 0 "fl (real_of_int (B * 2 ^ nat (n - 1))) + fl (r * fl (real_of_int B))"]
      j bf assms(6) by simp
  show ?thesis
    unfolding wait_time_value [OF assms(1) assms(2) assms(3)] using s by simp
qed

lemma wait_time_bounds:
  assumes "0 \<le> B" and "B \<le> 3600" and "1 \<le> n"
      and "B * 2 ^ nat (n - 1) < 2 ^ 1024 - 2 ^ 970"
      and "0 \<le> r" and "r < 1" and "mono fl"
      and "\<forall>k\<in>{0..3600}. fl (real_of_int k) = real_of_int k"
  shows "\<exists>t. wait_time fl B n r = Inr t \<and> real_of_int B \<le> t \<and>
             t \<le> min (real_of_int B * 2 ^ nat (n - 1) + real_of_int B) 3600"
proof -
  let ?bi = "B * 2 ^ nat (n - 1)"
  let ?j = "fl (r * fl (real_of_int B))"
  let ?bf = "fl (real_of_int ?bi)"
  let ?s = "fl (?bf + ?j)"
  have ex: "\<And>k. 0 \<le> k \<Longrightarrow> k \<le> 3600 \<Longrightarrow> fl (real_of_int k) = real_of_int k"
    using assms(8) by simp
  have fB: "fl (real_of_int B) = real_of_int B" using ex assms(1) assms(2) by simp
  have f0: "fl 0 = 0" using ex [of 0] by simp
  have p: "(1::int) \<le> 2 ^ nat (n - 1)" by simp
  have "B * 1 \<le> ?bi" using p assms(1) by (rule mult_left_mono)
  then have le: "B \<le> ?bi" by simp
  have rB: "0 \<le> r * real_of_int B" "r * real_of_int B \<le> real_of_int B"
    using assms(1) assms(5) assms(6) by (simp_all add: mult_left_le_one_le)
  have j0: "0 \<le> ?j" using monoD [OF assms(7) rB(1)] f0 fB by simp
  have jB: "?j \<le> real_of_int B" using monoD [OF assms(7) rB(2)] fB by simp
  have ler: "real_of_int B \<le> real_of_int ?bi" using le by (simp only: of_int_le_iff)
  have bfB: "real_of_int B \<le> ?bf"
    using monoD [OF assms(7) ler] fB by (simp only:)
  have sB: "real_of_int B \<le> ?s"
    using monoD [OF assms(7), of "real_of_int B" "?bf + ?j"] bfB j0 fB by simp
  have lo: "real_of_int B \<le> min ?s 3600" using sB assms(2) by simp
  have hi: "min ?s 3600 \<le> min (real_of_int B * 2 ^ nat (n - 1) + real_of_int B) 3600"
  proof (cases "?bi + B < 3600")
    case False
    then have "(3600::real) \<le> real_of_int (?bi + B)" by linarith
    then have "(3600::real) \<le> real_of_int B * 2 ^ nat (n - 1) + real_of_int B" by simp
    then show ?thesis by simp
  next
    case True
    have bi0: "0 \<le> ?bi" using assms(1) by simp
    have bfe: "?bf = real_of_int ?bi" using ex [of ?bi] bi0 True assms(1) by simp
    have sum_ok: "fl (real_of_int (?bi + B)) = real_of_int (?bi + B)"
      using ex [of "?bi + B"] bi0 True assms(1) by simp
    have "?bf + ?j \<le> real_of_int (?bi + B)" using bfe jB by simp
    then have "?s \<le> real_of_int (?bi + B)"
      using monoD [OF assms(7), of "?bf + ?j" "real_of_int (?bi + B)"] sum_ok by simp
    then have "?s \<le> real_of_int B * 2 ^ nat (n - 1) + real_of_int B" by simp
    moreover have "real_of_int (?bi + B) < real_of_int 3600"
      using True by (simp only: of_int_less_iff)
    then have "real_of_int B * 2 ^ nat (n - 1) + real_of_int B < 3600" by simp
    ultimately show ?thesis by simp
  qed
  show ?thesis
    unfolding wait_time_value [OF assms(1) assms(3) assms(4)] using lo hi by simp
qed





text \<open>
  Whenever the presign answer names an upload id that no row has, the \<open>try\<close> leaves
  the store as it found it: its updates address that id.
\<close>

lemma unknown_server_id_leaves_store:
  assumes "try_body cfg e w upload = (w', r)"
      and "file_size e (filepath upload) = Inr size_bytes"
      and "server e (Presign (tenant_id cfg) (device_id cfg) (event_id upload)
                 (path_name (filepath upload)) size_bytes
                 (content_type (filepath upload))) = Inr pd"
      and "pd ''upload_id'' = Some sid"
      and "find (\<lambda>u. upload_id u = sid) (pending_uploads (store w)) = None"
  shows "store w' = store w"
  using assms unfolding try_body_def Let_def request_presigned_url_def send_def
    upload_file_def complete_upload_def post_metadata_def
  by (auto split: sum.splits option.splits if_splits simp: update_upload_status_no_row)

text \<open>
  C1. The claim is that a server-chosen \<open>upload_id\<close> replaces the local one in the
  later requests and in the store, with the transition to \<open>PROCESSING\<close>. On the data of
  the integration test (\<open>max_retries = 3\<close>, \<open>retry_backoff_seconds = 1\<close>), with a server
  that accepts every request and names the upload \<open>mock-upload-1\<close>: the update to
  \<open>PROCESSING\<close> addresses \<open>mock-upload-1\<close>, a row that does not exist, so the row of the
  upload is never \<open>PROCESSING\<close> and never gets its checksum; the completion request
  carries the local id \<open>upload-evt-test-001\<close>; the metadata step raises before it sends
  anything, and failure handling, which addresses the local id, puts the row back to
  \<open>PENDING_UPLOAD\<close> with one attempt after a sleep of 1.5 s.
\<close>

theorem server_upload_id_never_reaches_store:
  "process_upload test_config (test_env accepting_server) test_world test_upload =
     Inr \<lparr>store =
            \<lparr>events = [\<lparr>Event.event_id = ''evt-test-001'', json = ''{}'',
                        Event.status = ''PENDING_UPLOAD'', created_at = 0, updated_at = 0\<rparr>],
             pending_uploads = [\<lparr>upload_id = ''upload-evt-test-001'', event_id = ''evt-test-001'',
                          filepath = ''/tmp/test_clip.mp4'', attempts = 1,
                          last_attempt_ts = Some 100, status = ''PENDING_UPLOAD'',
                          checksum = None, final_url = None\<rparr>]\<rparr>,
          calls = [Presign ''acme'' ''thor-mini-001'' ''evt-test-001'' ''test_clip.mp4'' 53 ''video/mp4'',
                   Put ''http://localhost:5000/mock-upload/mock-upload-1'' ''video/mp4'' ''5a17'',
                   Complete ''upload-evt-test-001'' ''evt-test-001'' ''https://cdn.example.com/clip'' ''5a17''],
          sleeps = [3 / 2]\<rparr>"
  by (simp add: uploader_defs example_defs Let_def)

text \<open>
  C4, as the claim states it, fails: a presign answer without \<open>final_url\<close>, on a first
  attempt with \<open>max_retries = 3\<close>, ends with the row back in \<open>PENDING_UPLOAD\<close> after a
  sleep, not in \<open>FAILED\<close>.
\<close>

theorem missing_final_url_is_retried:
  "process_upload test_config (test_env incomplete_server) test_world test_upload =
     Inr \<lparr>store =
            \<lparr>events = [\<lparr>Event.event_id = ''evt-test-001'', json = ''{}'',
                        Event.status = ''PENDING_UPLOAD'', created_at = 0, updated_at = 0\<rparr>],
             pending_uploads = [\<lparr>upload_id = ''upload-evt-test-001'', event_id = ''evt-test-001'',
                          filepath = ''/tmp/test_clip.mp4'', attempts = 1,
                          last_attempt_ts = Some 100, status = ''PENDING_UPLOAD'',
                          checksum = None, final_url = None\<rparr>]\<rparr>,
          calls = [Presign ''acme'' ''thor-mini-001'' ''evt-test-001'' ''test_clip.mp4'' 53 ''video/mp4''],
          sleeps = [3 / 2]\<rparr>"
  by (simp add: uploader_defs example_defs Let_def)

lemma bad_presign_goes_to_handler:
  assumes "file_exists e (filepath upload)"
      and "file_sha256 e (filepath upload) = Inr cks"
      and "request_presigned_url cfg e w upload = (w1, r)"
      and "(\<exists>x. r = Inl x \<and> (\<forall>c. x \<noteq> HTTPError c)) \<or>
           (\<exists>pd. r = Inr pd \<and> (pd ''upload_url'' = None \<or> pd ''upload_url'' = Some [] \<or>
                                 pd ''final_url'' = None \<or> pd ''final_url'' = Some []))"
  shows "process_upload cfg e w upload = handle_failure cfg e w1 upload 500"
proof -
  consider (raised) x where "r = Inl x" "\<forall>c. x \<noteq> HTTPError c"
    | (missing) pd where "r = Inr pd"
        "pd ''upload_url'' = None \<or> pd ''upload_url'' = Some [] \<or>
         pd ''final_url'' = None \<or> pd ''final_url'' = Some []"
    using assms(4) by blast
  then show ?thesis
  proof cases
    case raised
    have "try_body cfg e w upload = (w1, Inl x)"
      using assms(2) assms(3) raised(1) by (simp add: try_body_def)
    then show ?thesis using assms(1) raised(2) by (cases x) (simp_all add: process_upload_def)
  next
    case missing
    have "try_body cfg e w upload = (w1, Inl ValueError)"
      using assms(2) assms(3) missing by (auto simp: try_body_def Let_def split: option.splits)
    then show ?thesis using assms(1) by (simp add: process_upload_def)
  qed
qed

lemma handle_failure_final:
  assumes "get_upload (store w) (upload_id upload) = Some u"
      and "fits_int64 (attempts upload + 1)"
      and "max_retries cfg \<le> attempts upload + 1"
  shows "\<exists>w'. handle_failure cfg e w upload sc = Inr w' \<and> calls w' = calls w \<and>
           sleeps w' = sleeps w \<and>
           map_option attempts (get_upload (store w') (upload_id upload)) = Some (attempts upload + 1) \<and>
           map_option PendingUpload.status (get_upload (store w') (upload_id upload)) = Some ''FAILED''"
proof -
  let ?kw = "no_kwargs\<lparr>kw_attempts := Some (Some (attempts upload + 1))\<rparr>"
  have b: "attempts_bindable ?kw" "kw_attempts ?kw \<noteq> Some None"
    using assms(2) by (simp_all add: attempts_bindable_def)
  obtain d where d: "update_upload_status (store w) (time_now e) (upload_id upload)
        ''FAILED'' ?kw = Inr d"
    using update_upload_status_returns [OF b] by blast
  have h: "handle_failure cfg e w upload sc = Inr (w\<lparr>store := d\<rparr>)"
    using assms(3) d by (simp add: handle_failure_def Let_def)
  have "get_upload d (upload_id upload) = Some (set_values (time_now e) ''FAILED'' ?kw u)"
    using get_upload_after_update [OF d] assms(1) by simp
  then show ?thesis using h by (simp add: set_values_def)
qed

lemma handle_failure_retry:
  assumes "get_upload (store w) (upload_id upload) = Some u"
      and "fits_int64 (attempts upload + 1)"
      and "attempts upload + 1 < max_retries cfg" and "500 \<le> sc"
      and "wait_time (float_round e) (retry_backoff_seconds cfg) (attempts upload + 1)
             (random_random e) = Inr t"
      and "0 \<le> t"
  shows "\<exists>w'. handle_failure cfg e w upload sc = Inr w' \<and> calls w' = calls w \<and>
           sleeps w' = sleeps w @ [t] \<and>
           map_option attempts (get_upload (store w') (upload_id upload)) = Some (attempts upload + 1) \<and>
           map_option PendingUpload.status (get_upload (store w') (upload_id upload))
             = Some ''PENDING_UPLOAD''"
proof -
  let ?kw = "no_kwargs\<lparr>kw_attempts := Some (Some (attempts upload + 1))\<rparr>"
  have b: "attempts_bindable ?kw" "kw_attempts ?kw \<noteq> Some None"
    using assms(2) by (simp_all add: attempts_bindable_def)
  obtain d where d: "update_upload_status (store w) (time_now e) (upload_id upload)
        ''PENDING_UPLOAD'' ?kw = Inr d"
    using update_upload_status_returns [OF b] by blast
  have h: "handle_failure cfg e w upload sc = Inr (w\<lparr>store := d, sleeps := sleeps w @ [t]\<rparr>)"
    using assms(3) assms(4) assms(5) assms(6) d by (simp add: handle_failure_def Let_def)
  have "get_upload d (upload_id upload) = Some (set_values (time_now e) ''PENDING_UPLOAD'' ?kw u)"
    using get_upload_after_update [OF d] assms(1) by simp
  then show ?thesis using h by (simp add: set_values_def)
qed

lemma handle_failure_overflow:
  assumes "attempts upload + 1 < max_retries cfg" and "500 \<le> sc"
      and "wait_time (float_round e) (retry_backoff_seconds cfg) (attempts upload + 1)
             (random_random e) = Inl x"
  shows "handle_failure cfg e w upload sc = Inl x"
  using assms by (simp add: handle_failure_def Let_def)

text \<open>
  C4, amended. A presign answer that is malformed (reading it raises something other
  than an \<open>HTTPError\<close>) or that lacks a non-empty \<open>upload_url\<close> or \<open>final_url\<close> is handled
  as a failure with status 500, that is as retryable, and no request follows it. For a
  row that is in the store and \<open>n\<close>, the picked-up attempts plus one, within the signed
  64-bit range: when \<open>n\<close> has reached \<open>max_retries\<close> the row is \<open>FAILED\<close> with \<open>n\<close>
  attempts and nothing is slept; when \<open>n\<close> is below \<open>max_retries\<close> and the backoff is
  computed to a duration that is not negative, the uploader sleeps that long and the
  row is back in \<open>PENDING_UPLOAD\<close> with \<open>n\<close> attempts; when the backoff computation
  overflows, its exception leaves \<open>process_upload\<close>. The backoff is computed to a
  non-negative duration whenever \<open>n \<ge> 1\<close>, the base \<open>B\<close> and the random number are not
  negative and \<open>B * 2^(n-1)\<close> is below \<open>2^1024 - 2^970\<close> (rounding being monotone and
  exact at 0).
\<close>

theorem bad_presign_response_is_retryable:
  assumes "file_exists e (filepath upload)"
      and "file_sha256 e (filepath upload) = Inr cks"
      and "request_presigned_url cfg e w upload = (w1, r)"
      and "(\<exists>x. r = Inl x \<and> (\<forall>c. x \<noteq> HTTPError c)) \<or>
           (\<exists>pd. r = Inr pd \<and> (pd ''upload_url'' = None \<or> pd ''upload_url'' = Some [] \<or>
                                 pd ''final_url'' = None \<or> pd ''final_url'' = Some []))"
      and "get_upload (store w) (upload_id upload) = Some u"
      and "fits_int64 (attempts upload + 1)"
  shows "(max_retries cfg \<le> attempts upload + 1 \<longrightarrow>
            (\<exists>w'. process_upload cfg e w upload = Inr w' \<and> calls w' = calls w1 \<and>
               sleeps w' = sleeps w \<and>
               map_option attempts (get_upload (store w') (upload_id upload))
                 = Some (attempts upload + 1) \<and>
               map_option PendingUpload.status (get_upload (store w') (upload_id upload))
                 = Some ''FAILED'')) \<and>
         (attempts upload + 1 < max_retries cfg \<longrightarrow>
            (\<forall>t. wait_time (float_round e) (retry_backoff_seconds cfg) (attempts upload + 1)
                    (random_random e) = Inr t \<and> 0 \<le> t \<longrightarrow>
               (\<exists>w'. process_upload cfg e w upload = Inr w' \<and> calls w' = calls w1 \<and>
                  sleeps w' = sleeps w @ [t] \<and>
                  map_option attempts (get_upload (store w') (upload_id upload))
                    = Some (attempts upload + 1) \<and>
                  map_option PendingUpload.status (get_upload (store w') (upload_id upload))
                    = Some ''PENDING_UPLOAD'')) \<and>
            (\<forall>x. wait_time (float_round e) (retry_backoff_seconds cfg) (attempts upload + 1)
                    (random_random e) = Inl x \<longrightarrow>
               process_upload cfg e w upload = Inl x)) \<and>
         (1 \<le> attempts upload + 1 \<and> 0 \<le> retry_backoff_seconds cfg \<and> 0 \<le> random_random e \<and>
          retry_backoff_seconds cfg * 2 ^ nat (attempts upload + 1 - 1) < 2 ^ 1024 - 2 ^ 970 \<and>
          mono (float_round e) \<and> float_round e 0 = 0 \<longrightarrow>
            (\<exists>t. wait_time (float_round e) (retry_backoff_seconds cfg) (attempts upload + 1)
                    (random_random e) = Inr t \<and> 0 \<le> t))"
proof -
  have p: "process_upload cfg e w upload = handle_failure cfg e w1 upload 500"
    using bad_presign_goes_to_handler [OF assms(1) assms(2) assms(3) assms(4)] .
  have s: "store w1 = store w" "sleeps w1 = sleeps w"
    using request_presigned_url_keeps [OF assms(3)] by simp_all
  have g: "get_upload (store w1) (upload_id upload) = Some u" using assms(5) s by simp
  have final: "max_retries cfg \<le> attempts upload + 1 \<longrightarrow>
            (\<exists>w'. process_upload cfg e w upload = Inr w' \<and> calls w' = calls w1 \<and>
               sleeps w' = sleeps w \<and>
               map_option attempts (get_upload (store w') (upload_id upload))
                 = Some (attempts upload + 1) \<and>
               map_option PendingUpload.status (get_upload (store w') (upload_id upload))
                 = Some ''FAILED'')"
    using handle_failure_final [OF g assms(6), of cfg e 500] unfolding p s by blast
  have retry: "attempts upload + 1 < max_retries cfg \<longrightarrow>
            (\<forall>t. wait_time (float_round e) (retry_backoff_seconds cfg) (attempts upload + 1)
                    (random_random e) = Inr t \<and> 0 \<le> t \<longrightarrow>
               (\<exists>w'. process_upload cfg e w upload = Inr w' \<and> calls w' = calls w1 \<and>
                  sleeps w' = sleeps w @ [t] \<and>
                  map_option attempts (get_upload (store w') (upload_id upload))
                    = Some (attempts upload + 1) \<and>
                  map_option PendingUpload.status (get_upload (store w') (upload_id upload))
                    = Some ''PENDING_UPLOAD''))"
  proof (intro impI allI)
    fix t
    assume n: "attempts upload + 1 < max_retries cfg"
       and t: "wait_time (float_round e) (retry_backoff_seconds cfg) (attempts upload + 1)
                    (random_random e) = Inr t \<and> 0 \<le> t"
    have c: "(500::int) \<le> 500" by simp
    show "\<exists>w'. process_upload cfg e w upload = Inr w' \<and> calls w' = calls w1 \<and>
                  sleeps w' = sleeps w @ [t] \<and>
                  map_option attempts (get_upload (store w') (upload_id upload))
                    = Some (attempts upload + 1) \<and>
                  map_option PendingUpload.status (get_upload (store w') (upload_id upload))
                    = Some ''PENDING_UPLOAD''"
      using handle_failure_retry [OF g assms(6) n c conjunct1 [OF t] conjunct2 [OF t]]
      unfolding p s by blast
  qed
  have over: "attempts upload + 1 < max_retries cfg \<longrightarrow>
            (\<forall>x. wait_time (float_round e) (retry_backoff_seconds cfg) (attempts upload + 1)
                    (random_random e) = Inl x \<longrightarrow>
               process_upload cfg e w upload = Inl x)"
    using handle_failure_overflow [of upload cfg 500 e _ w1] unfolding p by simp
  have ok: "1 \<le> attempts upload + 1 \<and> 0 \<le> retry_backoff_seconds cfg \<and> 0 \<le> random_random e \<and>
          retry_backoff_seconds cfg * 2 ^ nat (attempts upload + 1 - 1) < 2 ^ 1024 - 2 ^ 970 \<and>
          mono (float_round e) \<and> float_round e 0 = 0 \<longrightarrow>
            (\<exists>t. wait_time (float_round e) (retry_backoff_seconds cfg) (attempts upload + 1)
                    (random_random e) = Inr t \<and> 0 \<le> t)"
    using wait_time_nonneg [of "retry_backoff_seconds cfg" "attempts upload + 1"
        "random_random e" "float_round e"] by blast
  show ?thesis using final retry over ok by blast
qed

theorem bad_presign_response_is_retryable_witness:
  "file_exists (test_env incomplete_server) (filepath test_upload) \<and>
   file_sha256 (test_env incomplete_server) (filepath test_upload) = Inr ''5a17'' \<and>
   request_presigned_url test_config (test_env incomplete_server) test_world test_upload =
     (test_world\<lparr>calls := [Presign ''acme'' ''thor-mini-001'' ''evt-test-001'' ''test_clip.mp4'' 53 ''video/mp4'']\<rparr>,
      Inr [''upload_url'' \<mapsto> ''http://localhost:5000/u'']) \<and>
   [''upload_url'' \<mapsto> ''http://localhost:5000/u''] ''final_url'' = None \<and>
   get_upload (store test_world) (upload_id test_upload) = Some test_upload \<and>
   fits_int64 (attempts test_upload + 1) \<and>
   attempts test_upload + 1 < max_retries test_config \<and>
   wait_time (float_round (test_env incomplete_server)) (retry_backoff_seconds test_config)
       (attempts test_upload + 1) (random_random (test_env incomplete_server)) = Inr (3 / 2) \<and>
   (\<exists>w'. process_upload test_config (test_env incomplete_server) test_world test_upload = Inr w' \<and>
      calls w' = [Presign ''acme'' ''thor-mini-001'' ''evt-test-001'' ''test_clip.mp4'' 53 ''video/mp4''] \<and>
      sleeps w' = [3 / 2] \<and>
      map_option attempts (get_upload (store w') ''upload-evt-test-001'') = Some 1 \<and>
      map_option PendingUpload.status (get_upload (store w') ''upload-evt-test-001'') = Some ''PENDING_UPLOAD'')"
proof -
  let ?e = "test_env incomplete_server"
  let ?pd = "[''upload_url'' \<mapsto> ''http://localhost:5000/u''] :: string \<rightharpoonup> string"
  let ?w1 = "test_world\<lparr>calls := [Presign ''acme'' ''thor-mini-001'' ''evt-test-001'' ''test_clip.mp4'' 53 ''video/mp4'']\<rparr>"
  have a: "file_exists ?e (filepath test_upload)"
    by (simp add: test_env_def test_upload_def)
  have b: "file_sha256 ?e (filepath test_upload) = Inr ''5a17''"
    by (simp add: test_env_def)
  have c: "request_presigned_url test_config ?e test_world test_upload = (?w1, Inr ?pd)"
    by (simp add: uploader_defs example_defs)
  have m: "?pd ''final_url'' = None" by simp
  have d: "(\<exists>x. (Inr ?pd :: error + (string \<rightharpoonup> string)) = Inl x \<and> (\<forall>c. x \<noteq> HTTPError c)) \<or>
           (\<exists>pd. (Inr ?pd :: error + (string \<rightharpoonup> string)) = Inr pd \<and>
               (pd ''upload_url'' = None \<or> pd ''upload_url'' = Some [] \<or>
                pd ''final_url'' = None \<or> pd ''final_url'' = Some []))"
    using m by blast
  have g: "get_upload (store test_world) (upload_id test_upload) = Some test_upload"
    by (simp add: get_upload_def example_defs)
  have f: "fits_int64 (attempts test_upload + 1)"
    by (simp add: fits_int64_def test_upload_def)
  have n: "attempts test_upload + 1 < max_retries test_config"
    by (simp add: test_upload_def test_config_def)
  have t: "wait_time (float_round ?e) (retry_backoff_seconds test_config)
       (attempts test_upload + 1) (random_random ?e) = Inr (3 / 2)"
    by (simp add: wait_time_def int_to_float_def example_defs)
  have v: "upload_id test_upload = ''upload-evt-test-001''" "attempts test_upload + 1 = 1"
    "sleeps test_world = []"
    "calls ?w1 = [Presign ''acme'' ''thor-mini-001'' ''evt-test-001'' ''test_clip.mp4'' 53 ''video/mp4'']"
    by (simp_all add: example_defs)
  have "\<exists>w'. process_upload test_config ?e test_world test_upload = Inr w' \<and> calls w' = calls ?w1 \<and>
                  sleeps w' = sleeps test_world @ [3 / 2] \<and>
                  map_option attempts (get_upload (store w') (upload_id test_upload))
                    = Some (attempts test_upload + 1) \<and>
                  map_option PendingUpload.status (get_upload (store w') (upload_id test_upload))
                    = Some ''PENDING_UPLOAD''"
    using bad_presign_response_is_retryable [OF a b c d g f] n t by simp
  then have "\<exists>w'. process_upload test_config ?e test_world test_upload = Inr w' \<and>
      calls w' = [Presign ''acme'' ''thor-mini-001'' ''evt-test-001'' ''test_clip.mp4'' 53 ''video/mp4''] \<and>
      sleeps w' = [3 / 2] \<and>
      map_option attempts (get_upload (store w') ''upload-evt-test-001'') = Some 1 \<and>
      map_option PendingUpload.status (get_upload (store w') ''upload-evt-test-001'') = Some ''PENDING_UPLOAD''"
    unfolding v by simp
  with a b c m g f n t show ?thesis by blast
qed

text \<open>
  C6, as the claim states it, fails for a base above the cap: with
  \<open>retry_backoff_seconds = 4000\<close>, first attempt, the sleep is 3600, below the base.
\<close>

theorem wait_time_below_base:
  "wait_time (\<lambda>x. x) 4000 1 0 = Inr 3600 \<and> (3600::real) < real_of_int 4000"
  by (simp add: wait_time_def int_to_float_def)

text \<open>
  C6, amended. For a base \<open>B = retry_backoff_seconds\<close> with \<open>0 \<le> B \<le> 3600\<close> and an
  attempt number \<open>n = attempts + 1\<close> with \<open>1 \<le> n \<le> 1024\<close> and
  \<open>B * 2^(n-1) < 2^1024 - 2^970\<close> (beyond that the addition of the integer to the float
  raises \<open>OverflowError\<close> and nothing is slept), a retryable failure (status at least
  500, \<open>n\<close> below \<open>max_retries\<close>) sleeps once, for the value of
  \<open>min(B * 2^(n-1) + r * B, 3600)\<close> in double-precision arithmetic, \<open>r\<close> being the random
  number in \<open>[0, 1)\<close>; that duration \<open>t\<close> satisfies
  \<open>B \<le> t \<le> min(B * 2^(n-1) + B, 3600)\<close>. Of the rounding to doubles the proof uses
  that it is monotone and leaves the integers from 0 to 3600 as they are.
\<close>

theorem retry_sleep_bounds:
  assumes "0 \<le> retry_backoff_seconds cfg" and "retry_backoff_seconds cfg \<le> 3600"
      and "0 \<le> attempts upload" and "attempts upload + 1 \<le> 1024"
      and "retry_backoff_seconds cfg * 2 ^ nat (attempts upload + 1 - 1) < 2 ^ 1024 - 2 ^ 970"
      and "attempts upload + 1 < max_retries cfg"
      and "500 \<le> status_code"
      and "0 \<le> random_random e" and "random_random e < 1"
      and "mono (float_round e)"
      and "\<forall>k\<in>{0..3600}. float_round e (real_of_int k) = real_of_int k"
  shows "\<exists>w' t. handle_failure cfg e w upload status_code = Inr w' \<and>
           sleeps w' = sleeps w @ [t] \<and>
           wait_time (float_round e) (retry_backoff_seconds cfg) (attempts upload + 1)
             (random_random e) = Inr t \<and>
           real_of_int (retry_backoff_seconds cfg) \<le> t \<and>
           t \<le> min (real_of_int (retry_backoff_seconds cfg) * 2 ^ nat (attempts upload + 1 - 1)
                       + real_of_int (retry_backoff_seconds cfg)) 3600"
proof -
  let ?B = "retry_backoff_seconds cfg"
  let ?n = "attempts upload + 1"
  have n1: "1 \<le> ?n" using assms(3) by simp
  obtain t where t: "wait_time (float_round e) ?B ?n (random_random e) = Inr t"
    and lo: "real_of_int ?B \<le> t"
    and hi: "t \<le> min (real_of_int ?B * 2 ^ nat (?n - 1) + real_of_int ?B) 3600"
    using wait_time_bounds [OF assms(1) assms(2) n1 assms(5) assms(8) assms(9) assms(10) assms(11)]
    by blast
  have nonneg: "\<not> t < 0" using lo assms(1) by simp
  have f: "fits_int64 ?n" using assms(3) assms(4) by (simp add: fits_int64_def)
  let ?kw = "no_kwargs\<lparr>kw_attempts := Some (Some ?n)\<rparr>"
  have k: "attempts_bindable ?kw" "kw_attempts ?kw \<noteq> Some None"
    using f by (simp_all add: attempts_bindable_def)
  obtain d where d: "update_upload_status (store w) (time_now e) (upload_id upload)
        ''PENDING_UPLOAD'' ?kw = Inr d"
    using update_upload_status_returns [OF k] by blast
  have "handle_failure cfg e w upload status_code = Inr (w\<lparr>store := d, sleeps := sleeps w @ [t]\<rparr>)"
    using assms(6) assms(7) nonneg d t by (simp add: handle_failure_def Let_def)
  then show ?thesis using t lo hi by auto
qed

theorem retry_sleep_bounds_witness:
  "0 \<le> retry_backoff_seconds test_config \<and> retry_backoff_seconds test_config \<le> 3600 \<and>
   0 \<le> attempts test_upload \<and> attempts test_upload + 1 \<le> 1024 \<and>
   attempts test_upload + 1 < max_retries test_config \<and>
   (500::int) \<le> 503 \<and>
   0 \<le> random_random (test_env accepting_server) \<and> random_random (test_env accepting_server) < 1 \<and>
   mono (float_round (test_env accepting_server)) \<and>
   (\<exists>w' t. handle_failure test_config (test_env accepting_server) test_world test_upload 503 = Inr w' \<and>
      sleeps w' = [t] \<and> 1 \<le> t \<and> t \<le> 2)"
proof -
  let ?e = "test_env accepting_server"
  have a: "0 \<le> retry_backoff_seconds test_config" "retry_backoff_seconds test_config \<le> 3600"
    by (simp_all add: test_config_def)
  have b: "0 \<le> attempts test_upload" "attempts test_upload + 1 \<le> 1024"
    by (simp_all add: test_upload_def)
  have o: "retry_backoff_seconds test_config * 2 ^ nat (attempts test_upload + 1 - 1)
             < 2 ^ 1024 - 2 ^ 970"
    by (simp add: test_upload_def test_config_def)
  have m: "attempts test_upload + 1 < max_retries test_config"
    by (simp add: test_upload_def test_config_def)
  have c: "(500::int) \<le> 503" by simp
  have r: "0 \<le> random_random ?e" "random_random ?e < 1" by (simp_all add: test_env_def)
  have mo: "mono (float_round ?e)" by (simp add: test_env_def mono_def)
  have ex: "\<forall>k\<in>{0..3600}. float_round ?e (real_of_int k) = real_of_int k"
    by (simp add: test_env_def)
  have v: "attempts test_upload = 0" "retry_backoff_seconds test_config = 1"
    "sleeps test_world = []"
    by (simp_all add: example_defs)
  have "\<exists>w' t. handle_failure test_config ?e test_world test_upload 503 = Inr w' \<and>
      sleeps w' = sleeps test_world @ [t] \<and>
      real_of_int (retry_backoff_seconds test_config) \<le> t \<and>
      t \<le> min (real_of_int (retry_backoff_seconds test_config) * 2 ^ nat (attempts test_upload + 1 - 1)
                       + real_of_int (retry_backoff_seconds test_config)) 3600"
    using retry_sleep_bounds [OF a b o m c r mo ex, of test_world] by blast
  then have "\<exists>w' t. handle_failure test_config ?e test_world test_upload 503 = Inr w' \<and>
      sleeps w' = [t] \<and> 1 \<le> t \<and> t \<le> 2"
    unfolding v by simp
  with a b m c r mo show ?thesis by blast
qed






text \<open>
  C9. The claim is that the \<open>PUT\<close> carries \<open>application/octet-stream\<close> for a file that
  is not \<open>.mp4\<close>. For the clip \<open>/tmp/clip.bin\<close> the presign request announces
  \<open>application/octet-stream\<close>, and the \<open>PUT\<close> of the same upload is sent with
  \<open>Content-Type: video/mp4\<close>; its \<open>x-amz-checksum-sha256\<close> is the digest of the file.
  (The run is the one of the integration test's data with that clip: the metadata step
  raises and the row goes back to \<open>PENDING_UPLOAD\<close>.)
\<close>

theorem put_content_type_ignores_extension:
  "content_type ''/tmp/clip.bin'' = ''application/octet-stream'' \<and>
   process_upload test_config (test_env accepting_server) test_world
       (test_upload\<lparr>filepath := ''/tmp/clip.bin''\<rparr>) =
     Inr \<lparr>store =
            \<lparr>events = [\<lparr>Event.event_id = ''evt-test-001'', json = ''{}'',
                        Event.status = ''PENDING_UPLOAD'', created_at = 0, updated_at = 0\<rparr>],
             pending_uploads = [\<lparr>upload_id = ''upload-evt-test-001'', event_id = ''evt-test-001'',
                          filepath = ''/tmp/test_clip.mp4'', attempts = 1,
                          last_attempt_ts = Some 100, status = ''PENDING_UPLOAD'',
                          checksum = None, final_url = None\<rparr>]\<rparr>,
          calls = [Presign ''acme'' ''thor-mini-001'' ''evt-test-001'' ''clip.bin'' 53 ''application/octet-stream'',
                   Put ''http://localhost:5000/mock-upload/mock-upload-1'' ''video/mp4'' ''5a17'',
                   Complete ''upload-evt-test-001'' ''evt-test-001'' ''https://cdn.example.com/clip'' ''5a17''],
          sleeps = [3 / 2]\<rparr>"
  by (simp add: uploader_defs example_defs Let_def)

section \<open>Properties of the sync worker\<close>

lemmas sync_defs = process_package_def get_str_def staging_path_def install_path_def
  join_path_def model_storage_path_def path_parts_def open_wb_def resolve_def is_folder_def
  mkdir_exist_ok_def unlink_def extract_member_def

lemmas sync_example_defs = test_package_def test_sync_env_def empty_state_def

text \<open>Writing a file where no folder is does not change where any path leads.\<close>

lemma walk_add_file:
  "walk fs cur cs = Inr q \<Longrightarrow> fs p \<noteq> Some Folder \<Longrightarrow>
   walk (fs(p \<mapsto> File c)) cur cs = Inr q"
proof (induction cs arbitrary: cur)
  case Nil
  then show ?case by simp
next
  case (Cons a cs)
  show ?case
  proof (cases "a = ''..''")
    case True
    then show ?thesis using Cons by simp
  next
    case False
    then have f: "fs (cur @ [a]) = Some Folder"
      using Cons.prems(1) by (auto split: option.splits entry.splits)
    then have "cur @ [a] \<noteq> p" using Cons.prems(2) by auto
    then show ?thesis using False f Cons by simp
  qed
qed

lemma resolve_add_file:
  assumes "resolve fs names = Inr q" and "fs p \<noteq> Some Folder"
  shows "resolve (fs(p \<mapsto> File c)) names = Inr q"
proof (cases "names = []")
  case True
  then show ?thesis using assms(1) by (simp add: resolve_def)
next
  case False
  then obtain dir where d: "walk fs [] (butlast names) = Inr dir"
    and q: "q = (if last names = ''..'' then butlast dir else dir @ [last names])"
    using assms(1) by (auto simp: resolve_def split: sum.splits)
  have "walk (fs(p \<mapsto> File c)) [] (butlast names) = Inr dir"
    using walk_add_file [OF d assms(2)] .
  then show ?thesis using False q by (simp add: resolve_def)
qed

lemma open_wb_result:
  "open_wb fs names c = Inr fs1 \<Longrightarrow>
   \<exists>p. resolve fs names = Inr p \<and> \<not> is_folder fs p \<and> fs1 = fs(p \<mapsto> File c)"
  by (auto simp: open_wb_def split: sum.splits if_splits)

lemma unlink_after_open:
  assumes "open_wb fs names c = Inr fs1"
  shows "\<exists>p. resolve fs names = Inr p \<and> unlink fs1 names = Inr (fs(p := None))"
proof -
  obtain p where p: "resolve fs names = Inr p" "\<not> is_folder fs p" "fs1 = fs(p \<mapsto> File c)"
    using open_wb_result [OF assms] by blast
  have nf: "fs p \<noteq> Some Folder" "p \<noteq> []" using p(2) by (simp_all add: is_folder_def)
  have r: "resolve fs1 names = Inr p"
    unfolding p(3) using p(1) nf(1) by (rule resolve_add_file)
  have "unlink fs1 names = Inr (fs1(p := None))"
    using r nf(2) by (simp add: unlink_def is_folder_def p(3))
  then show ?thesis using p(1) by (simp add: p(3))
qed

lemma process_package_keeps_store:
  "sync_store (fst (process_package e s package)) = sync_store s"
  unfolding process_package_def Let_def
  by (auto split: if_splits download_result.splits sum.splits prod.splits)

text \<open>
  C5, as the claim states it, fails: when the reload request fails after a good
  download, checksum and extraction, the extracted file stays in the model directory
  of the package, which did not exist before.
\<close>

theorem failed_reload_keeps_new_model:
  "files empty_state [''opt'', ''vss'', ''models'', ''det''] = None \<and>
   reload_ok (test_sync_env ''ab12'' False) ''v2'' = False \<and>
   process_package (test_sync_env ''ab12'' False) empty_state test_package =
     (\<lparr>files = [[''opt''] \<mapsto> Folder, [''opt'', ''vss''] \<mapsto> Folder,
                [''opt'', ''vss'', ''models''] \<mapsto> Folder,
                [''opt'', ''vss'', ''models'', ''det''] \<mapsto> Folder,
                [''opt'', ''vss'', ''models'', ''det'', ''model.bin''] \<mapsto> File [9]],
       reload_calls = [(''v2'', False)], sync_store = test_db\<rparr>,
      None)"
  by (simp add: sync_defs sync_example_defs Let_def)

text \<open>
  C5, amended. Installation leaves no trace only when it stops before extraction. For
  a manifest with all five fields: if the download request fails, nothing is changed;
  if the download succeeds and the staging file cannot be opened for writing (its
  folder is missing, as for an id or version with a slash in it, or a folder has its
  name), the exception leaves \<open>_process_package\<close> uncaught and nothing is changed; if
  the download succeeds, the staging file is written and the SHA-256 of the bytes
  differs from the manifest's, the staging file is removed and everything else (every
  other file, the reload requests, of which there is none, and the store) is as
  before. The store is as before after any install. (Signature verification is a
  placeholder that cannot fail, and a reload that fails is not undone.)
\<close>

theorem process_package_early_failure:
  assumes "get_str package ''id'' \<noteq> []" and "get_str package ''version'' \<noteq> []"
      and "get_str package ''download_url'' \<noteq> []" and "get_str package ''sha256'' \<noteq> []"
      and "get_str package ''signature'' \<noteq> []"
  shows "(download e (get_str package ''download_url'') = RequestFailed \<longrightarrow>
            process_package e s package = (s, None)) \<and>
         (\<forall>content x.
            download e (get_str package ''download_url'') = Downloaded content \<and>
            open_wb (files s)
              (staging_path (get_str package ''id'') (get_str package ''version'')) content = Inl x
            \<longrightarrow> process_package e s package = (s, Some x)) \<and>
         (\<forall>content fs1.
            download e (get_str package ''download_url'') = Downloaded content \<and>
            open_wb (files s)
              (staging_path (get_str package ''id'') (get_str package ''version'')) content = Inr fs1 \<and>
            sha256_hex e content \<noteq> get_str package ''sha256''
            \<longrightarrow> (\<exists>p. resolve (files s)
                        (staging_path (get_str package ''id'') (get_str package ''version'')) = Inr p \<and>
                      process_package e s package = (s\<lparr>files := (files s)(p := None)\<rparr>, None))) \<and>
         sync_store (fst (process_package e s package)) = sync_store s"
proof (intro conjI allI impI)
  assume "download e (get_str package ''download_url'') = RequestFailed"
  then show "process_package e s package = (s, None)"
    using assms by (simp add: process_package_def Let_def)
next
  fix content x
  assume "download e (get_str package ''download_url'') = Downloaded content \<and>
          open_wb (files s)
            (staging_path (get_str package ''id'') (get_str package ''version'')) content = Inl x"
  then show "process_package e s package = (s, Some x)"
    using assms by (simp add: process_package_def Let_def)
next
  fix content fs1
  let ?local = "staging_path (get_str package ''id'') (get_str package ''version'')"
  assume a: "download e (get_str package ''download_url'') = Downloaded content \<and>
          open_wb (files s) ?local content = Inr fs1 \<and>
          sha256_hex e content \<noteq> get_str package ''sha256''"
  then have o: "open_wb (files s) ?local content = Inr fs1" by simp
  obtain p where p: "resolve (files s) ?local = Inr p"
    "unlink fs1 ?local = Inr ((files s)(p := None))"
    using unlink_after_open [OF o] by blast
  have "process_package e s package = (s\<lparr>files := (files s)(p := None)\<rparr>, None)"
    using assms a p(2) by (simp add: process_package_def Let_def)
  with p(1) show "\<exists>p. resolve (files s) ?local = Inr p \<and>
                      process_package e s package = (s\<lparr>files := (files s)(p := None)\<rparr>, None)"
    by blast
next
  show "sync_store (fst (process_package e s package)) = sync_store s"
    by (rule process_package_keeps_store)
qed

theorem process_package_early_failure_witness:
  "get_str test_package ''id'' \<noteq> [] \<and> get_str test_package ''version'' \<noteq> [] \<and>
   get_str test_package ''download_url'' \<noteq> [] \<and> get_str test_package ''sha256'' \<noteq> [] \<and>
   get_str test_package ''signature'' \<noteq> [] \<and>
   download (test_sync_env ''ffff'' True) (get_str test_package ''download_url'') = Downloaded [1, 2, 3] \<and>
   open_wb (files empty_state)
     (staging_path (get_str test_package ''id'') (get_str test_package ''version'')) [1, 2, 3]
     = Inr ((files empty_state)([''opt'', ''vss'', ''models'', ''det-v2.tar.gz''] \<mapsto> File [1, 2, 3])) \<and>
   sha256_hex (test_sync_env ''ffff'' True) [1, 2, 3] \<noteq> get_str test_package ''sha256'' \<and>
   process_package (test_sync_env ''ffff'' True) empty_state test_package =
     (empty_state\<lparr>files := (files empty_state)([''opt'', ''vss'', ''models'', ''det-v2.tar.gz''] := None)\<rparr>,
      None)"
proof -
  let ?e = "test_sync_env ''ffff'' True"
  let ?local = "staging_path (get_str test_package ''id'') (get_str test_package ''version'')"
  have a: "get_str test_package ''id'' \<noteq> []" "get_str test_package ''version'' \<noteq> []"
    "get_str test_package ''download_url'' \<noteq> []" "get_str test_package ''sha256'' \<noteq> []"
    "get_str test_package ''signature'' \<noteq> []"
    by (simp_all add: get_str_def test_package_def)
  have d: "download ?e (get_str test_package ''download_url'') = Downloaded [1, 2, 3]"
    by (simp add: test_sync_env_def)
  have o: "open_wb (files empty_state) ?local [1, 2, 3]
     = Inr ((files empty_state)([''opt'', ''vss'', ''models'', ''det-v2.tar.gz''] \<mapsto> File [1, 2, 3]))"
    by (simp add: sync_defs sync_example_defs)
  have m: "sha256_hex ?e [1, 2, 3] \<noteq> get_str test_package ''sha256''"
    by (simp add: test_sync_env_def get_str_def test_package_def)
  have r: "resolve (files empty_state) ?local = Inr [''opt'', ''vss'', ''models'', ''det-v2.tar.gz'']"
    by (simp add: sync_defs sync_example_defs)
  obtain p where p: "resolve (files empty_state) ?local = Inr p"
    "process_package ?e empty_state test_package
       = (empty_state\<lparr>files := (files empty_state)(p := None)\<rparr>, None)"
    using process_package_early_failure [OF a, of ?e empty_state] d o m by blast
  have "p = [''opt'', ''vss'', ''models'', ''det-v2.tar.gz'']" using p(1) r by simp
  then show ?thesis using a d o m p(2) by simp
qed

text \<open>
  An id with a slash in it: the staging file would lie in a folder that does not
  exist, \<open>open\<close> raises, and nothing is changed.
\<close>

lemma slash_in_id_raises:
  "process_package (test_sync_env ''ab12'' True) empty_state (test_package(''id'' \<mapsto> ''nvidia/det''))
     = (empty_state, Some FileNotFoundError)"
  by (simp add: sync_defs sync_example_defs Let_def)

end
